theory Spec2Isabelle
  imports Complex_Main
begin

section \<open>Python values used by the container manager\<close>

text \<open>
  The exceptions the code raises or catches. Each carries the text that \<open>str(e)\<close> gives.
  The first three follow the class hierarchy of the Docker SDK: \<open>ImageNotFound\<close> is a
  subclass of \<open>NotFound\<close>, which is a subclass of \<open>APIError\<close>. \<open>PyException\<close> is a plain
  \<open>Exception(msg)\<close>, the one the code raises itself; \<open>OtherException\<close> is any further
  subclass of \<open>Exception\<close> (a database error, for example). Exceptions outside
  \<open>Exception\<close> (\<open>KeyboardInterrupt\<close>, \<open>SystemExit\<close>) are not modelled.
\<close>

datatype exn =
    NotFound string
  | ImageNotFound string
  | APIError string
  | BuildError string
  | DockerException string
  | OSError string
  | ValueError string
  | KeyError string
  | AttributeError string
  | ZeroDivisionError string
  | OverflowError string
  | UnboundLocalError string
  | RuntimeError string
  | PyException string
  | OtherException string

fun str_exn :: "exn \<Rightarrow> string" where
  "str_exn (NotFound m) = m"
| "str_exn (ImageNotFound m) = m"
| "str_exn (APIError m) = m"
| "str_exn (BuildError m) = m"
| "str_exn (DockerException m) = m"
| "str_exn (OSError m) = m"
| "str_exn (ValueError m) = m"
| "str_exn (KeyError m) = m"
| "str_exn (AttributeError m) = m"
| "str_exn (ZeroDivisionError m) = m"
| "str_exn (OverflowError m) = m"
| "str_exn (UnboundLocalError m) = m"
| "str_exn (RuntimeError m) = m"
| "str_exn (PyException m) = m"
| "str_exn (OtherException m) = m"

text \<open>\<open>except docker.errors.ImageNotFound\<close>, \<open>except docker.errors.NotFound\<close>,
  \<open>except docker.errors.APIError\<close>, \<open>except docker.errors.BuildError\<close> and
  \<open>except OSError\<close> match these exceptions.\<close>

fun is_ImageNotFound :: "exn \<Rightarrow> bool" where
  "is_ImageNotFound (ImageNotFound m) = True"
| "is_ImageNotFound e = False"

fun is_NotFound :: "exn \<Rightarrow> bool" where
  "is_NotFound (NotFound m) = True"
| "is_NotFound (ImageNotFound m) = True"
| "is_NotFound e = False"

fun is_APIError :: "exn \<Rightarrow> bool" where
  "is_APIError (APIError m) = True"
| "is_APIError (NotFound m) = True"
| "is_APIError (ImageNotFound m) = True"
| "is_APIError e = False"

fun is_BuildError :: "exn \<Rightarrow> bool" where
  "is_BuildError (BuildError m) = True"
| "is_BuildError e = False"


subsection \<open>Decimal text of integers: \<open>str(n)\<close> and \<open>int(s)\<close>\<close>

definition digit_char :: "nat \<Rightarrow> char" where
  "digit_char d = ''0123456789'' ! d"

function str_of_nat :: "nat \<Rightarrow> string" where
  "str_of_nat n = (if n < 10 then [digit_char n] else str_of_nat (n div 10) @ [digit_char (n mod 10)])"
  by pat_completeness auto
termination
  by (relation "measure (\<lambda>n. n)") auto

declare str_of_nat.simps [simp del]

definition str_of_int :: "int \<Rightarrow> string" where
  "str_of_int i = (if i < 0 then CHR ''-'' # str_of_nat (nat (- i)) else str_of_nat (nat i))"

text \<open>
  \<open>int(s)\<close> on a string: surrounding whitespace (tab, line feed, vertical tab, form
  feed, carriage return, space) is stripped, one sign is allowed, then decimal digits,
  with single underscores allowed between digits. Only ASCII text is modelled (a
  \<open>char\<close> is a byte). The interpreter refuses to convert between an integer and a
  decimal text of more than \<open>sys.int_info.default_max_str_digits\<close> digits, in
  either direction, with a \<open>ValueError\<close>.
\<close>

definition int_max_str_digits :: nat where
  "int_max_str_digits = 4300"

definition py_isspace :: "char \<Rightarrow> bool" where
  "py_isspace c = (let n = (of_char c :: nat) in (9 \<le> n \<and> n \<le> 13) \<or> n = 32)"

definition py_strip :: "string \<Rightarrow> string" where
  "py_strip s = rev (dropWhile py_isspace (rev (dropWhile py_isspace s)))"

definition is_digit :: "char \<Rightarrow> bool" where
  "is_digit c = (let n = (of_char c :: nat) in 48 \<le> n \<and> n \<le> 57)"

definition digit_val :: "char \<Rightarrow> int" where
  "digit_val c = int (of_char c) - 48"

fun digits_value :: "int \<Rightarrow> string \<Rightarrow> int option" where
  "digits_value acc [] = Some acc"
| "digits_value acc (c # cs) =
     (if is_digit c then digits_value (10 * acc + digit_val c) cs
      else if c = CHR ''_'' then
        (case cs of
           [] \<Rightarrow> None
         | d # ds \<Rightarrow> if is_digit d then digits_value (10 * acc + digit_val d) ds else None)
      else None)"

definition py_int_of_str :: "string \<Rightarrow> int option" where
  "py_int_of_str s =
     (let t = py_strip s;
          neg = (case t of c # cs \<Rightarrow> c = CHR ''-'' | [] \<Rightarrow> False);
          body = (case t of c # cs \<Rightarrow> if c = CHR ''-'' \<or> c = CHR ''+'' then cs else t | [] \<Rightarrow> [])
      in case body of
           [] \<Rightarrow> None
         | c # cs \<Rightarrow>
             if is_digit c \<and> length (filter is_digit body) \<le> int_max_str_digits
             then map_option (\<lambda>v. if neg then - v else v) (digits_value 0 body)
             else None)"

text \<open>
  A tenant identifier is a Python value; the code coerces it with \<open>int(user_id)\<close> and
  formats it with an f-string, so both an \<open>int\<close> and a \<open>str\<close> are accepted. Other Python
  types are not modelled. \<open>py_str\<close> is the text the f-string inserts; for an integer of
  more than 4300 digits the formatting raises.
\<close>

datatype tenant_id = IntId int | StrId string

fun py_int :: "tenant_id \<Rightarrow> exn + int" where
  "py_int (IntId n) = Inr n"
| "py_int (StrId s) =
     (case py_int_of_str s of
        None \<Rightarrow> Inl (ValueError ''invalid literal for int() with base 10'')
      | Some n \<Rightarrow> Inr n)"

fun py_str :: "tenant_id \<Rightarrow> exn + string" where
  "py_str (IntId n) =
     (if 10 ^ int_max_str_digits \<le> \<bar>n\<bar>
      then Inl (ValueError ''Exceeds the limit (4300 digits) for integer string conversion'')
      else Inr (str_of_int n))"
| "py_str (StrId s) = Inr s"

section \<open>Tenant configuration\<close>

text \<open>\<open>DockerManager._generate_unique_config(user_id)\<close>.\<close>

definition generate_unique_config :: "tenant_id \<Rightarrow> exn + (int \<times> string \<times> string)" where
  "generate_unique_config uid =
     (case py_int uid of
        Inl e \<Rightarrow> Inl e
      | Inr n \<Rightarrow>
          (case py_str uid of
             Inl e \<Rightarrow> Inl e
           | Inr text \<Rightarrow>
               (let prt = 5000 + n;
                    dbn = ''db_'' @ text;
                    project_name = ''cyber_'' @ text
                in Inr (prt, dbn, project_name))))"


section \<open>Programs: explicit state and exceptions\<close>

text \<open>
  A Python statement is a function from the state to a result and the new state. The
  result is \<open>Inl e\<close> when the statement raises \<open>e\<close>. \<open>bnd\<close> is sequencing, \<open>try_except\<close> a
  \<open>try\<close> block with its handler (a handler re-raises what no \<open>except\<close> clause matches),
  and \<open>for_each\<close> a \<open>for\<close> loop over a list.
\<close>

definition ret :: "'a \<Rightarrow> 'w \<Rightarrow> (exn + 'a) \<times> 'w" where
  "ret x w = (Inr x, w)"

definition throw :: "exn \<Rightarrow> 'w \<Rightarrow> (exn + 'a) \<times> 'w" where
  "throw e w = (Inl e, w)"

definition bnd :: "('w \<Rightarrow> (exn + 'a) \<times> 'w) \<Rightarrow> ('a \<Rightarrow> 'w \<Rightarrow> (exn + 'b) \<times> 'w) \<Rightarrow> 'w \<Rightarrow> (exn + 'b) \<times> 'w" where
  "bnd m f w = (case m w of (Inl e, w') \<Rightarrow> (Inl e, w') | (Inr x, w') \<Rightarrow> f x w')"

definition try_except :: "('w \<Rightarrow> (exn + 'a) \<times> 'w) \<Rightarrow> (exn \<Rightarrow> 'w \<Rightarrow> (exn + 'a) \<times> 'w) \<Rightarrow> 'w \<Rightarrow> (exn + 'a) \<times> 'w" where
  "try_except m h w = (case m w of (Inl e, w') \<Rightarrow> h e w' | (Inr x, w') \<Rightarrow> (Inr x, w'))"

text \<open>The first statement of a \<open>try\<close> block binds a local variable that the handler
  reads: \<open>try_bind m h f\<close> runs \<open>m\<close> under the handler \<open>h\<close> and hands its value to the
  rest of the block.\<close>

definition try_bind :: "('w \<Rightarrow> (exn + 'a) \<times> 'w) \<Rightarrow> (exn \<Rightarrow> 'w \<Rightarrow> (exn + 'b) \<times> 'w) \<Rightarrow> ('a \<Rightarrow> 'w \<Rightarrow> (exn + 'b) \<times> 'w) \<Rightarrow> 'w \<Rightarrow> (exn + 'b) \<times> 'w" where
  "try_bind m h f w = (case m w of (Inl e, w') \<Rightarrow> h e w' | (Inr x, w') \<Rightarrow> f x w')"

text \<open>A computation that does not touch the state, raising when its result is \<open>Inl\<close>.\<close>

definition of_result :: "exn + 'a \<Rightarrow> 'w \<Rightarrow> (exn + 'a) \<times> 'w" where
  "of_result r w = (r, w)"

fun for_each :: "'a list \<Rightarrow> ('a \<Rightarrow> 'w \<Rightarrow> (exn + unit) \<times> 'w) \<Rightarrow> 'w \<Rightarrow> (exn + unit) \<times> 'w" where
  "for_each [] f = ret ()"
| "for_each (x # xs) f = bnd (f x) (\<lambda>_. for_each xs f)"

section \<open>The persisted records and the database session\<close>

text \<open>
  Modelled from the spec: the model class \<open>ContainerManager\<close>
  (\<open>models/container_manager.py\<close>) and the session \<open>db\<close> (\<open>extensions.py\<close>) are imported
  by the source and are not part of it. The record has the fields of the spec's
  TenantContainerRecord. The session is a unit of work: \<open>add\<close> and \<open>delete\<close> queue a
  change, \<open>commit\<close> writes everything queued in one transaction, a query sees the
  queued changes. \<open>update_status\<close> assigns the status and persists it, so it commits.
  A row object is the first row with its \<open>container_id\<close>, the row that
  \<open>filter_by(container_id=...).first()\<close> returned.
\<close>

record container_record =
  user_id :: tenant_id
  container_id :: string
  port :: int
  db_name :: string
  plan :: string
  status :: string

datatype db_op = Add container_record | SetStatus string string | Delete string

record db_state =
  rows :: "container_record list"
  pending :: "db_op list"
  commit_log :: "db_op list list"

fun update_first :: "('a \<Rightarrow> bool) \<Rightarrow> ('a \<Rightarrow> 'a) \<Rightarrow> 'a list \<Rightarrow> 'a list" where
  "update_first P g [] = []"
| "update_first P g (x # xs) = (if P x then g x # xs else x # update_first P g xs)"

fun remove_first :: "('a \<Rightarrow> bool) \<Rightarrow> 'a list \<Rightarrow> 'a list" where
  "remove_first P [] = []"
| "remove_first P (x # xs) = (if P x then xs else x # remove_first P xs)"

fun apply_op :: "container_record list \<Rightarrow> db_op \<Rightarrow> container_record list" where
  "apply_op rs (Add r) = rs @ [r]"
| "apply_op rs (SetStatus cid s) = update_first (\<lambda>r. container_id r = cid) (\<lambda>r. r\<lparr>status := s\<rparr>) rs"
| "apply_op rs (Delete cid) = remove_first (\<lambda>r. container_id r = cid) rs"

definition visible :: "db_state \<Rightarrow> container_record list" where
  "visible d = foldl apply_op (rows d) (pending d)"

section \<open>The outside world\<close>

text \<open>
  What the Docker SDK, the operating system and the database engine answer is not
  determined by the source, so it is a parameter: an \<open>env\<close> gives, for every call, the
  result (a value or an exception) and the next state of the outside world \<open>'r\<close>. The
  theorems hold for every \<open>env\<close>. A container object carries the name and status the
  runtime reports.
\<close>

record container =
  cname :: string
  cstatus :: string

record run_args =
  image_ref :: string
  name_arg :: string
  detach :: bool
  environment :: "(string \<times> string) list"
  volumes :: "(string \<times> string \<times> string) list"
  ports :: "(string \<times> int option) list"
  restart_policy :: string
  network :: string

text \<open>The fields of a stats snapshot that the code reads; \<open>None\<close> is an absent key.\<close>

record stats =
  cpu_total_usage :: "int option"
  precpu_total_usage :: "int option"
  cpu_system_usage :: "int option"
  precpu_system_usage :: "int option"
  memory_stats :: "(int option \<times> int option) option"
  eth0_rx_bytes :: "int option"
  eth0_tx_bytes :: "int option"

datatype api_call =
    FromEnv
  | NetworksGet string
  | NetworksCreate string string
  | ContainersList bool string
  | ContainerRemove string bool
  | VolumesList string
  | VolumesCreate string
  | ContainersRun run_args
  | ImagesGet string
  | ImagesBuild string string string bool
  | ContainersGet string
  | ContainerStart string
  | ContainerStop string
  | ContainerRestart string
  | ContainerStats string bool

record 'r env =
  rt_from_env :: "'r \<Rightarrow> (exn + unit) \<times> 'r"
  rt_networks_get :: "string \<Rightarrow> 'r \<Rightarrow> (exn + unit) \<times> 'r"
  rt_networks_create :: "string \<Rightarrow> string \<Rightarrow> 'r \<Rightarrow> (exn + unit) \<times> 'r"
  rt_containers_list :: "bool \<Rightarrow> string \<Rightarrow> 'r \<Rightarrow> (exn + container list) \<times> 'r"
  rt_container_remove :: "container \<Rightarrow> bool \<Rightarrow> 'r \<Rightarrow> (exn + unit) \<times> 'r"
  rt_volumes_list :: "string \<Rightarrow> 'r \<Rightarrow> (exn + string list) \<times> 'r"
  rt_volumes_create :: "string \<Rightarrow> 'r \<Rightarrow> (exn + unit) \<times> 'r"
  rt_containers_run :: "run_args \<Rightarrow> 'r \<Rightarrow> (exn + container) \<times> 'r"
  rt_images_get :: "string \<Rightarrow> 'r \<Rightarrow> (exn + unit) \<times> 'r"
  rt_images_build :: "string \<Rightarrow> string \<Rightarrow> string \<Rightarrow> bool \<Rightarrow> 'r \<Rightarrow> (exn + unit) \<times> 'r"
  rt_containers_get :: "string \<Rightarrow> 'r \<Rightarrow> (exn + container) \<times> 'r"
  rt_container_start :: "container \<Rightarrow> 'r \<Rightarrow> (exn + unit) \<times> 'r"
  rt_container_stop :: "container \<Rightarrow> 'r \<Rightarrow> (exn + unit) \<times> 'r"
  rt_container_restart :: "container \<Rightarrow> 'r \<Rightarrow> (exn + unit) \<times> 'r"
  rt_container_stats :: "container \<Rightarrow> bool \<Rightarrow> 'r \<Rightarrow> (exn + stats) \<times> 'r"
  os_getcwd :: "'r \<Rightarrow> (exn + string) \<times> 'r"
  db_query :: "'r \<Rightarrow> (exn + unit) \<times> 'r"
  db_commit :: "'r \<Rightarrow> (exn + unit) \<times> 'r"

text \<open>The state of a run: the outside world, the calls made to the container runtime
  so far (in order), and the database session.\<close>

record 'r world =
  ext :: 'r
  calls :: "api_call list"
  db :: db_state

definition docker_call :: "api_call \<Rightarrow> ('r \<Rightarrow> (exn + 'a) \<times> 'r) \<Rightarrow> 'r world \<Rightarrow> (exn + 'a) \<times> 'r world" where
  "docker_call c f w = (case f (ext w) of (res, r') \<Rightarrow> (res, w\<lparr>ext := r', calls := calls w @ [c]\<rparr>))"

definition os_call :: "('r \<Rightarrow> (exn + 'a) \<times> 'r) \<Rightarrow> 'r world \<Rightarrow> (exn + 'a) \<times> 'r world" where
  "os_call f w = (case f (ext w) of (res, r') \<Rightarrow> (res, w\<lparr>ext := r'\<rparr>))"


subsection \<open>The calls of the Docker SDK and of the session\<close>

definition from_env :: "'r env \<Rightarrow> 'r world \<Rightarrow> (exn + unit) \<times> 'r world" where
  "from_env R = docker_call FromEnv (rt_from_env R)"

definition networks_get :: "'r env \<Rightarrow> string \<Rightarrow> 'r world \<Rightarrow> (exn + unit) \<times> 'r world" where
  "networks_get R n = docker_call (NetworksGet n) (rt_networks_get R n)"

definition networks_create :: "'r env \<Rightarrow> string \<Rightarrow> string \<Rightarrow> 'r world \<Rightarrow> (exn + unit) \<times> 'r world" where
  "networks_create R n driver = docker_call (NetworksCreate n driver) (rt_networks_create R n driver)"

definition containers_list :: "'r env \<Rightarrow> bool \<Rightarrow> string \<Rightarrow> 'r world \<Rightarrow> (exn + container list) \<times> 'r world" where
  "containers_list R all_arg n = docker_call (ContainersList all_arg n) (rt_containers_list R all_arg n)"

definition container_remove :: "'r env \<Rightarrow> container \<Rightarrow> bool \<Rightarrow> 'r world \<Rightarrow> (exn + unit) \<times> 'r world" where
  "container_remove R c force = docker_call (ContainerRemove (cname c) force) (rt_container_remove R c force)"

definition volumes_list :: "'r env \<Rightarrow> string \<Rightarrow> 'r world \<Rightarrow> (exn + string list) \<times> 'r world" where
  "volumes_list R n = docker_call (VolumesList n) (rt_volumes_list R n)"

definition volumes_create :: "'r env \<Rightarrow> string \<Rightarrow> 'r world \<Rightarrow> (exn + unit) \<times> 'r world" where
  "volumes_create R n = docker_call (VolumesCreate n) (rt_volumes_create R n)"

definition containers_run :: "'r env \<Rightarrow> run_args \<Rightarrow> 'r world \<Rightarrow> (exn + container) \<times> 'r world" where
  "containers_run R a = docker_call (ContainersRun a) (rt_containers_run R a)"

definition images_get :: "'r env \<Rightarrow> string \<Rightarrow> 'r world \<Rightarrow> (exn + unit) \<times> 'r world" where
  "images_get R tag = docker_call (ImagesGet tag) (rt_images_get R tag)"

definition images_build :: "'r env \<Rightarrow> string \<Rightarrow> string \<Rightarrow> string \<Rightarrow> bool \<Rightarrow> 'r world \<Rightarrow> (exn + unit) \<times> 'r world" where
  "images_build R path dockerfile tag rm =
     docker_call (ImagesBuild path dockerfile tag rm) (rt_images_build R path dockerfile tag rm)"

definition containers_get :: "'r env \<Rightarrow> string \<Rightarrow> 'r world \<Rightarrow> (exn + container) \<times> 'r world" where
  "containers_get R cid = docker_call (ContainersGet cid) (rt_containers_get R cid)"

definition container_start :: "'r env \<Rightarrow> container \<Rightarrow> 'r world \<Rightarrow> (exn + unit) \<times> 'r world" where
  "container_start R c = docker_call (ContainerStart (cname c)) (rt_container_start R c)"

definition container_stop :: "'r env \<Rightarrow> container \<Rightarrow> 'r world \<Rightarrow> (exn + unit) \<times> 'r world" where
  "container_stop R c = docker_call (ContainerStop (cname c)) (rt_container_stop R c)"

definition container_restart :: "'r env \<Rightarrow> container \<Rightarrow> 'r world \<Rightarrow> (exn + unit) \<times> 'r world" where
  "container_restart R c = docker_call (ContainerRestart (cname c)) (rt_container_restart R c)"

definition container_stats :: "'r env \<Rightarrow> container \<Rightarrow> bool \<Rightarrow> 'r world \<Rightarrow> (exn + stats) \<times> 'r world" where
  "container_stats R c stream = docker_call (ContainerStats (cname c) stream) (rt_container_stats R c stream)"

definition session_add :: "container_record \<Rightarrow> 'r world \<Rightarrow> (exn + unit) \<times> 'r world" where
  "session_add r w = (Inr (), w\<lparr>db := (db w)\<lparr>pending := pending (db w) @ [Add r]\<rparr>\<rparr>)"

definition session_delete :: "container_record \<Rightarrow> 'r world \<Rightarrow> (exn + unit) \<times> 'r world" where
  "session_delete r w = (Inr (), w\<lparr>db := (db w)\<lparr>pending := pending (db w) @ [Delete (container_id r)]\<rparr>\<rparr>)"

definition commit_db :: "db_state \<Rightarrow> db_state" where
  "commit_db d = \<lparr>rows = visible d, pending = [], commit_log = commit_log d @ [pending d]\<rparr>"

definition session_commit :: "'r env \<Rightarrow> 'r world \<Rightarrow> (exn + unit) \<times> 'r world" where
  "session_commit R = bnd (os_call (db_commit R)) (\<lambda>_ w. (Inr (), w\<lparr>db := commit_db (db w)\<rparr>))"

definition query_first :: "'r env \<Rightarrow> string \<Rightarrow> 'r world \<Rightarrow> (exn + container_record option) \<times> 'r world" where
  "query_first R cid =
     bnd (os_call (db_query R)) (\<lambda>_ w. (Inr (find (\<lambda>r. container_id r = cid) (visible (db w))), w))"

definition update_status :: "'r env \<Rightarrow> container_record \<Rightarrow> string \<Rightarrow> 'r world \<Rightarrow> (exn + unit) \<times> 'r world" where
  "update_status R r s =
     bnd (\<lambda>w. (Inr (), w\<lparr>db := (db w)\<lparr>pending := pending (db w) @ [SetStatus (container_id r) s]\<rparr>\<rparr>))
       (\<lambda>_. session_commit R)"

section \<open>Port allocation\<close>







section \<open>Provisioning\<close>

text \<open>\<open>os.path.join\<close> of two components and \<open>os.path.dirname\<close>, as \<open>posixpath\<close> defines them.\<close>

definition path_join :: "string \<Rightarrow> string \<Rightarrow> string" where
  "path_join a b =
     (if b \<noteq> [] \<and> hd b = CHR ''/'' then b
      else if a = [] \<or> last a = CHR ''/'' then a @ b
      else a @ ''/'' @ b)"

definition path_dirname :: "string \<Rightarrow> string" where
  "path_dirname p =
     (let head = rev (dropWhile (\<lambda>c. c \<noteq> CHR ''/'') (rev p))
      in if head \<noteq> [] \<and> \<not> list_all (\<lambda>c. c = CHR ''/'') head
         then rev (dropWhile (\<lambda>c. c = CHR ''/'') (rev head))
         else head)"

text \<open>\<open>DockerManager._get_compose_file(plan)\<close>.\<close>

definition get_compose_file :: "'r env \<Rightarrow> string \<Rightarrow> 'r world \<Rightarrow> (exn + string) \<times> 'r world" where
  "get_compose_file R pl =
     bnd (os_call (os_getcwd R)) (\<lambda>cwd.
     let base_dir = path_join cwd (''plan_'' @ pl);
         compose_file = ''docker-compose_'' @ pl @ ''.yml''
     in ret (path_join base_dir compose_file))"

text \<open>\<open>DockerManager.build_main_image(project)\<close>. The loop over the build log only
  prints; printing is not modelled.\<close>

definition build_main_image :: "'r env \<Rightarrow> string \<Rightarrow> 'r world \<Rightarrow> (exn + unit) \<times> 'r world" where
  "build_main_image R project =
     bnd (from_env R) (\<lambda>client.
     let tag = project @ ''_cyber:latest''
     in try_except
          (images_build R ''.'' ''Dockerfile'' tag True)
          (\<lambda>e. if is_BuildError e then
                  throw (PyException (''Failed to build image for '' @ project @ '': '' @ str_exn e))
                else if is_APIError e then
                  throw (PyException (''Docker API error during build for '' @ project @ '': '' @ str_exn e))
                else throw e))"

definition postgres_run_args :: "string \<Rightarrow> string \<Rightarrow> string \<Rightarrow> string \<Rightarrow> string \<Rightarrow> run_args" where
  "postgres_run_args container_name network_name volume_name db_password dbn =
     \<lparr>image_ref = ''postgres:latest'',
      name_arg = container_name,
      detach = True,
      environment = [(''POSTGRES_USER'', ''postgres''),
                     (''POSTGRES_PASSWORD'', db_password),
                     (''POSTGRES_DB'', dbn)],
      volumes = [(volume_name, ''/var/lib/postgresql/data'', ''rw'')],
      ports = [(''5432/tcp'', None)],
      restart_policy = ''unless-stopped'',
      network = network_name\<rparr>"

text \<open>\<open>DockerManager.deploy_postgres_container(project, db_password, db_name)\<close>.\<close>

definition deploy_postgres_container :: "'r env \<Rightarrow> string \<Rightarrow> string \<Rightarrow> string \<Rightarrow> 'r world \<Rightarrow> (exn + container) \<times> 'r world" where
  "deploy_postgres_container R project db_password dbn =
     bnd (from_env R) (\<lambda>client.
     let container_name = project @ ''_postgres'';
         network_name = project @ ''_network''
     in
     bnd (try_except (networks_get R network_name)
            (\<lambda>e. if is_NotFound e then networks_create R network_name ''bridge'' else throw e)) (\<lambda>_.
     try_except
       (bnd (containers_list R True container_name) (\<lambda>existing.
        bnd (for_each existing (\<lambda>cont. container_remove R cont True)) (\<lambda>_.
        let volume_name = project @ ''_postgres_data'' in
        bnd (volumes_list R volume_name) (\<lambda>vols.
        bnd (if vols = [] then volumes_create R volume_name else ret ()) (\<lambda>_.
        containers_run R (postgres_run_args container_name network_name volume_name db_password dbn))))))
       (\<lambda>e. if is_APIError e then throw (PyException (''Failed to deploy Postgres: '' @ str_exn e))
             else throw e)))"

definition main_run_args :: "string \<Rightarrow> string \<Rightarrow> string \<Rightarrow> string \<Rightarrow> int \<Rightarrow> string \<Rightarrow> string \<Rightarrow> run_args" where
  "main_run_args main_image container_name network_name project host_port db_password dbn =
     \<lparr>image_ref = main_image,
      name_arg = container_name,
      detach = True,
      environment = [(''SQLALCHEMY_DATABASE_URI'',
                        ''postgresql://postgres:'' @ db_password @ ''@'' @ project @ ''_postgres/'' @ dbn),
                     (''POSTGRES_HOST'', project @ ''_postgres''),
                     (''POSTGRES_USER'', ''postgres''),
                     (''POSTGRES_PASSWORD'', db_password),
                     (''POSTGRES_DB'', dbn)],
      volumes = [],
      ports = [(''5000'', Some host_port)],
      restart_policy = ''unless-stopped'',
      network = network_name\<rparr>"

text \<open>\<open>DockerManager.deploy_main_container(project, host_port, db_password, db_name)\<close>.\<close>

definition deploy_main_container :: "'r env \<Rightarrow> string \<Rightarrow> int \<Rightarrow> string \<Rightarrow> string \<Rightarrow> 'r world \<Rightarrow> (exn + container) \<times> 'r world" where
  "deploy_main_container R project host_port db_password dbn =
     bnd (from_env R) (\<lambda>client.
     let container_name = project @ ''_cyber'';
         network_name = project @ ''_network''
     in
     bnd (try_except (networks_get R network_name)
            (\<lambda>e. if is_NotFound e then networks_create R network_name ''bridge'' else throw e)) (\<lambda>_.
     try_except
       (bnd (try_except (images_get R (project @ ''_cyber:latest''))
               (\<lambda>e. if is_ImageNotFound e then build_main_image R project else throw e)) (\<lambda>_.
        let main_image = project @ ''_cyber:latest'' in
        bnd (containers_list R True container_name) (\<lambda>existing.
        bnd (for_each existing (\<lambda>cont. container_remove R cont True)) (\<lambda>_.
        containers_run R (main_run_args main_image container_name network_name project host_port db_password dbn)))))
       (\<lambda>e. if is_APIError e then throw (PyException (''Failed to deploy main app: '' @ str_exn e))
             else throw e)))"

text \<open>The \<open>try\<close> block of \<open>DockerManager.create_container(user_id, plan)\<close>.\<close>

definition create_container_try :: "'r env \<Rightarrow> tenant_id \<Rightarrow> string \<Rightarrow> 'r world \<Rightarrow> (exn + string option) \<times> 'r world" where
  "create_container_try R uid pl =
     bnd (of_result (generate_unique_config uid)) (\<lambda>(prt, dbn, project_name).
     bnd (get_compose_file R pl) (\<lambda>compose_file.
     let plan_dir = path_dirname compose_file in
     bnd (deploy_postgres_container R project_name ''db1'' dbn) (\<lambda>postgres_container.
     bnd (deploy_main_container R project_name prt ''db1'' dbn) (\<lambda>main_container.
     bnd (session_add \<lparr>user_id = uid, container_id = cname main_container, port = prt,
                       db_name = dbn, plan = pl, status = ''running''\<rparr>) (\<lambda>_.
     bnd (session_add \<lparr>user_id = uid, container_id = cname postgres_container, port = 5432,
                       db_name = dbn, plan = pl, status = ''running''\<rparr>) (\<lambda>_.
     bnd (session_commit R) (\<lambda>_.
     ret (Some (cname main_container)))))))))"

text \<open>\<open>DockerManager.create_container(user_id, plan)\<close>: the client is acquired before the
  \<open>try\<close> block, and the handler of the block returns \<open>None\<close>.\<close>

definition create_container :: "'r env \<Rightarrow> tenant_id \<Rightarrow> string \<Rightarrow> 'r world \<Rightarrow> (exn + string option) \<times> 'r world" where
  "create_container R uid pl =
     bnd (from_env R) (\<lambda>client.
     try_except (create_container_try R uid pl) (\<lambda>e. ret None))"


section \<open>Lifecycle management\<close>

text \<open>
  The handlers of \<open>manage_container\<close>. \<open>loc\<close> is the local variable \<open>container\<close> at the
  time of the exception: \<open>None\<close> when it is not bound yet, \<open>Some None\<close> when the query
  found no row. An exception of the handler itself propagates.
\<close>

definition manage_container_except :: "'r env \<Rightarrow> string \<Rightarrow> container_record option option \<Rightarrow> exn \<Rightarrow> 'r world \<Rightarrow> (exn + bool) \<times> 'r world" where
  "manage_container_except R action loc e =
     (if is_NotFound e then
        (if action = ''remove'' then
           (case loc of
              None \<Rightarrow> throw (UnboundLocalError ''container'')
            | Some None \<Rightarrow> ret False
            | Some (Some c) \<Rightarrow>
                bnd (update_status R c ''removed'') (\<lambda>_.
                bnd (session_delete c) (\<lambda>_.
                bnd (session_commit R) (\<lambda>_.
                ret True))))
         else ret False)
      else ret False)"

text \<open>The \<open>try\<close> block of \<open>manage_container\<close> after the query found the row \<open>c\<close>.\<close>

definition manage_container_found :: "'r env \<Rightarrow> string \<Rightarrow> string \<Rightarrow> container_record \<Rightarrow> 'r world \<Rightarrow> (exn + bool) \<times> 'r world" where
  "manage_container_found R cid action c =
     bnd (containers_get R cid) (\<lambda>docker_container.
     bnd (if action = ''start'' then
            bnd (container_start R docker_container) (\<lambda>_. update_status R c ''running'')
          else if action = ''stop'' then
            bnd (container_stop R docker_container) (\<lambda>_. update_status R c ''stopped'')
          else if action = ''remove'' then
            bnd (container_remove R docker_container True) (\<lambda>_.
            bnd (update_status R c ''removed'') (\<lambda>_.
            bnd (session_delete c) (\<lambda>_.
            session_commit R)))
          else if action = ''restart'' then
            bnd (container_restart R docker_container) (\<lambda>_. update_status R c ''running'')
          else ret ()) (\<lambda>_.
     ret True))"

text \<open>\<open>DockerManager.manage_container(container_id, action)\<close>.\<close>

definition manage_container :: "'r env \<Rightarrow> string \<Rightarrow> string \<Rightarrow> 'r world \<Rightarrow> (exn + bool) \<times> 'r world" where
  "manage_container R cid action =
     bnd (from_env R) (\<lambda>client.
     try_bind (query_first R cid) (manage_container_except R action None) (\<lambda>container.
     try_except
       (case container of
          None \<Rightarrow> ret False
        | Some c \<Rightarrow> manage_container_found R cid action c)
       (manage_container_except R action (Some container))))"

text \<open>The runtime operation that \<open>manage_container\<close> issues for an action on the
  container object it looked up; none for any other action.\<close>

definition lifecycle_call :: "'r env \<Rightarrow> string \<Rightarrow> container \<Rightarrow> 'r world \<Rightarrow> (exn + unit) \<times> 'r world" where
  "lifecycle_call R action dc =
     (if action = ''start'' then container_start R dc
      else if action = ''stop'' then container_stop R dc
      else if action = ''remove'' then container_remove R dc True
      else if action = ''restart'' then container_restart R dc
      else ret ())"

section \<open>Telemetry\<close>

text \<open>
  Python's floating point is a parameter: \<open>truediv a b\<close> is \<open>a / b\<close> on two integers
  with \<open>b\<close> not zero, \<open>times\<close> the product of two floats, \<open>hundred\<close> the literal
  \<open>100.0\<close> and \<open>round2 x\<close> is \<open>round(x, 2)\<close>. A number is an \<open>int\<close> or a \<open>float\<close>.
\<close>

record 'f float_ops =
  truediv :: "int \<Rightarrow> int \<Rightarrow> 'f"
  times :: "'f \<Rightarrow> 'f \<Rightarrow> 'f"
  hundred :: 'f
  round2 :: "'f \<Rightarrow> 'f"










section \<open>Predicates and inputs used in the statements\<close>




text \<open>Predicates of the proofs: the value of a string of digits; a program that leaves
  the session alone and only adds to the list of calls; a table with distinct container
  ids and a program that keeps it so; a program that makes a given call on every run,
  or on every run that returns.\<close>

definition nat_of_str :: "string \<Rightarrow> nat" where
  "nat_of_str s = foldl (\<lambda>a c. 10 * a + (of_char c - 48)) 0 s"

definition runtime_only :: "('r world \<Rightarrow> (exn + 'a) \<times> 'r world) \<Rightarrow> bool" where
  "runtime_only m = (\<forall>w r w'. m w = (r, w') \<longrightarrow> db w' = db w \<and> (\<exists>n. calls w' = calls w @ n))"

definition uniq :: "'r world \<Rightarrow> bool" where
  "uniq w = distinct (map container_id (visible (db w)))"

definition keeps_uniq :: "('r world \<Rightarrow> (exn + 'a) \<times> 'r world) \<Rightarrow> bool" where
  "keeps_uniq m = (\<forall>w r w'. m w = (r, w') \<longrightarrow> uniq w \<longrightarrow> uniq w')"


definition issues :: "api_call \<Rightarrow> ('r world \<Rightarrow> (exn + 'a) \<times> 'r world) \<Rightarrow> bool" where
  "issues c m = (\<forall>w x w'. m w = (Inr x, w') \<longrightarrow> (\<exists>n. calls w' = calls w @ n \<and> c \<in> set n))"

text \<open>What a run of \<open>create_container\<close> can have done to the session \<open>d\<close> with its new
  records \<open>rs\<close>: nothing, queued them, or queued and committed them.\<close>

datatype stage = Untouched | Queued | Committed

fun db_with :: "db_state \<Rightarrow> stage \<Rightarrow> container_record list \<Rightarrow> db_state" where
  "db_with d Untouched rs = d"
| "db_with d Queued rs = d\<lparr>pending := pending d @ map Add rs\<rparr>"
| "db_with d Committed rs = commit_db (d\<lparr>pending := pending d @ map Add rs\<rparr>)"

section \<open>Concrete inputs\<close>

text \<open>A stats snapshot without a transmit counter.\<close>

definition sample_stats :: stats where
  "sample_stats = \<lparr>cpu_total_usage = Some 700, precpu_total_usage = Some 600,
     cpu_system_usage = Some 9000, precpu_system_usage = Some 8600,
     memory_stats = Some (Some 52428800, Some 209715200),
     eth0_rx_bytes = Some 1200, eth0_tx_bytes = None\<rparr>"

text \<open>A runtime on a fresh host: the network, the volume and the image do not exist
  yet, no container exists, and every other call succeeds. A started container is
  reported under the name it was given.\<close>

definition fresh_env :: "unit env" where
  "fresh_env =
     \<lparr>rt_from_env = (\<lambda>r. (Inr (), r)),
      rt_networks_get = (\<lambda>n r. (Inl (NotFound ''network not found''), r)),
      rt_networks_create = (\<lambda>n d r. (Inr (), r)),
      rt_containers_list = (\<lambda>a n r. (Inr [], r)),
      rt_container_remove = (\<lambda>c f r. (Inr (), r)),
      rt_volumes_list = (\<lambda>n r. (Inr [], r)),
      rt_volumes_create = (\<lambda>n r. (Inr (), r)),
      rt_containers_run = (\<lambda>a r. (Inr \<lparr>cname = name_arg a, cstatus = ''created''\<rparr>, r)),
      rt_images_get = (\<lambda>t r. (Inl (ImageNotFound ''no such image''), r)),
      rt_images_build = (\<lambda>p f t b r. (Inr (), r)),
      rt_containers_get = (\<lambda>c r. (Inr \<lparr>cname = c, cstatus = ''running''\<rparr>, r)),
      rt_container_start = (\<lambda>c r. (Inr (), r)),
      rt_container_stop = (\<lambda>c r. (Inr (), r)),
      rt_container_restart = (\<lambda>c r. (Inr (), r)),
      rt_container_stats = (\<lambda>c s r. (Inr sample_stats, r)),
      os_getcwd = (\<lambda>r. (Inr ''/srv/app'', r)),
      db_query = (\<lambda>r. (Inr (), r)),
      db_commit = (\<lambda>r. (Inr (), r))\<rparr>"

text \<open>The same host when the daemon cannot be reached, when the runtime rejects every
  \<open>run\<close>, and when it knows no container.\<close>

definition down_env :: "unit env" where
  "down_env = fresh_env\<lparr>rt_from_env := (\<lambda>r. (Inl (DockerException ''Error while fetching server API version''), r))\<rparr>"

definition run_fails_env :: "unit env" where
  "run_fails_env = fresh_env\<lparr>rt_containers_run := (\<lambda>a r. (Inl (APIError ''port is already allocated''), r))\<rparr>"

definition gone_env :: "unit env" where
  "gone_env = fresh_env\<lparr>rt_containers_get := (\<lambda>c r. (Inl (NotFound ''No such container''), r))\<rparr>"

definition start_fails_env :: "unit env" where
  "start_fails_env = fresh_env\<lparr>rt_container_start := (\<lambda>c r. (Inl (APIError ''cannot start''), r))\<rparr>"

text \<open>Hosts on which the image build fails, the working directory is gone, and the
  database rejects the commit.\<close>

definition build_fails_env :: "unit env" where
  "build_fails_env = fresh_env\<lparr>rt_images_build := (\<lambda>p f t b r. (Inl (BuildError ''no Dockerfile''), r))\<rparr>"

definition no_cwd_env :: "unit env" where
  "no_cwd_env = fresh_env\<lparr>os_getcwd := (\<lambda>r. (Inl (OSError ''No such file or directory''), r))\<rparr>"

definition commit_fails_env :: "unit env" where
  "commit_fails_env = fresh_env\<lparr>db_commit := (\<lambda>r. (Inl (OtherException ''IntegrityError''), r))\<rparr>"

definition record_42 :: container_record where
  "record_42 = \<lparr>user_id = IntId 42, container_id = ''cyber_42_cyber'', port = 5042,
     db_name = ''db_42'', plan = ''basic'', status = ''running''\<rparr>"

definition empty_world :: "unit world" where
  "empty_world = \<lparr>ext = (), calls = [], db = \<lparr>rows = [], pending = [], commit_log = []\<rparr>\<rparr>"

definition world_42 :: "unit world" where
  "world_42 = \<lparr>ext = (), calls = [], db = \<lparr>rows = [record_42], pending = [], commit_log = []\<rparr>\<rparr>"


text \<open>The states after provisioning tenant 42 on the fresh host, and after removing
  its application container when the runtime no longer knows it.\<close>

definition created_42 :: "unit world" where
  "created_42 = snd (create_container fresh_env (IntId 42) ''basic'' empty_world)"

definition removed_42 :: "unit world" where
  "removed_42 = snd (manage_container gone_env ''cyber_42_cyber'' ''remove'' world_42)"

section \<open>Auxiliary lemmas\<close>

lemma nat_of_str_snoc: "nat_of_str (s @ [c]) = 10 * nat_of_str s + (of_char c - 48)"
  by (simp add: nat_of_str_def)

lemma digit_cases:
  "(d::nat) < 10 \<Longrightarrow> d = 0 \<or> d = 1 \<or> d = 2 \<or> d = 3 \<or> d = 4 \<or> d = 5 \<or> d = 6 \<or> d = 7 \<or> d = 8 \<or> d = 9"
  by arith

lemma of_char_digit: "d < 10 \<Longrightarrow> (of_char (digit_char d) :: nat) = 48 + d"
  using digit_cases[of d] by (auto simp: digit_char_def)

lemma nat_of_str_of_nat: "nat_of_str (str_of_nat n) = n"
proof (induction n rule: str_of_nat.induct)
  case (1 n)
  show ?case
  proof (cases "n < 10")
    case True
    then show ?thesis by (subst str_of_nat.simps) (simp add: nat_of_str_def of_char_digit)
  next
    case False
    then have "nat_of_str (str_of_nat n) = 10 * nat_of_str (str_of_nat (n div 10)) + (of_char (digit_char (n mod 10)) - 48)"
      by (subst str_of_nat.simps) (simp add: nat_of_str_snoc)
    also have "\<dots> = 10 * (n div 10) + n mod 10"
      using 1 False by (simp add: of_char_digit)
    finally show ?thesis by simp
  qed
qed

lemma str_of_nat_inj: "str_of_nat m = str_of_nat n \<Longrightarrow> m = n"
  by (metis nat_of_str_of_nat)

lemma str_of_nat_hd: "\<exists>d cs. str_of_nat n = digit_char d # cs \<and> d < 10"
proof (induction n rule: str_of_nat.induct)
  case (1 n)
  show ?case
  proof (cases "n < 10")
    case True
    then have "str_of_nat n = digit_char n # []" by (subst str_of_nat.simps) simp
    with True show ?thesis by blast
  next
    case False
    with 1 obtain d cs where *: "str_of_nat (n div 10) = digit_char d # cs" "d < 10" by blast
    from False have "str_of_nat n = str_of_nat (n div 10) @ [digit_char (n mod 10)]"
      by (subst str_of_nat.simps) simp
    with * have "str_of_nat n = digit_char d # (cs @ [digit_char (n mod 10)])" by simp
    with * show ?thesis by blast
  qed
qed

lemma digit_char_not_minus: "d < 10 \<Longrightarrow> digit_char d \<noteq> CHR ''-''"
proof
  assume "d < 10" "digit_char d = CHR ''-''"
  then have "(of_char (digit_char d) :: nat) = of_char (CHR ''-'')" by simp
  with \<open>d < 10\<close> show False by (simp add: of_char_digit)
qed

lemma str_of_nat_not_minus: "str_of_nat n \<noteq> CHR ''-'' # cs"
proof
  assume a: "str_of_nat n = CHR ''-'' # cs"
  obtain d ds where "str_of_nat n = digit_char d # ds" "d < 10" using str_of_nat_hd[of n] by blast
  with a have "digit_char d = CHR ''-''" "d < 10" by simp_all
  then show False using digit_char_not_minus[of d] by simp
qed

lemma str_of_int_inj: "str_of_int i = str_of_int j \<Longrightarrow> i = j"
proof -
  assume eq: "str_of_int i = str_of_int j"
  consider "i < 0" "j < 0" | "i < 0" "\<not> j < 0" | "\<not> i < 0" "j < 0" | "\<not> i < 0" "\<not> j < 0" by blast
  then show ?thesis
  proof cases
    case 1
    with eq have "str_of_nat (nat (- i)) = str_of_nat (nat (- j))" by (simp add: str_of_int_def)
    then have "nat (- i) = nat (- j)" by (rule str_of_nat_inj)
    with 1 show ?thesis by simp
  next
    case 2
    with eq have "str_of_nat (nat j) = CHR ''-'' # str_of_nat (nat (- i))" by (simp add: str_of_int_def)
    then show ?thesis using str_of_nat_not_minus by blast
  next
    case 3
    with eq have "str_of_nat (nat i) = CHR ''-'' # str_of_nat (nat (- j))" by (simp add: str_of_int_def)
    then show ?thesis using str_of_nat_not_minus by blast
  next
    case 4
    with eq have "str_of_nat (nat i) = str_of_nat (nat j)" by (simp add: str_of_int_def)
    then have "nat i = nat j" by (rule str_of_nat_inj)
    with 4 show ?thesis by simp
  qed
qed







lemma bnd_Inr: "m w = (Inr x, w') \<Longrightarrow> bnd m f w = f x w'"
  by (simp add: bnd_def)

lemma bnd_Inl: "m w = (Inl e, w') \<Longrightarrow> bnd m f w = (Inl e, w')"
  by (simp add: bnd_def)

lemma bnd_InrD:
  "bnd m f w = (Inr y, w'') \<Longrightarrow> \<exists>x w'. m w = (Inr x, w') \<and> f x w' = (Inr y, w'')"
  by (auto simp: bnd_def split: prod.splits sum.splits)

lemma try_except_Inr: "m w = (Inr x, w') \<Longrightarrow> try_except m h w = (Inr x, w')"
  by (simp add: try_except_def)

lemma try_except_Inl: "m w = (Inl e, w') \<Longrightarrow> try_except m h w = h e w'"
  by (simp add: try_except_def)

lemma try_except_cases:
  "try_except m h w = (r, w'') \<Longrightarrow>
     (\<exists>x. m w = (Inr x, w'') \<and> r = Inr x) \<or> (\<exists>e w'. m w = (Inl e, w') \<and> h e w' = (r, w''))"
  by (auto simp: try_except_def split: prod.splits sum.splits)

lemma docker_call_result:
  "docker_call c f w = (r, w') \<Longrightarrow> db w' = db w \<and> calls w' = calls w @ [c]"
  by (auto simp: docker_call_def split: prod.splits)

lemma os_call_result:
  "os_call f w = (r, w') \<Longrightarrow> db w' = db w \<and> calls w' = calls w"
  by (auto simp: os_call_def split: prod.splits)

lemma runtime_onlyD:
  "runtime_only m \<Longrightarrow> m w = (r, w') \<Longrightarrow> db w' = db w \<and> (\<exists>n. calls w' = calls w @ n)"
  by (simp add: runtime_only_def)

lemma runtime_only_docker_call [intro!]: "runtime_only (docker_call c f)"
  unfolding runtime_only_def using docker_call_result by blast

lemma runtime_only_os_call [intro!]: "runtime_only (os_call f)"
  unfolding runtime_only_def using os_call_result by fastforce

lemma runtime_only_ret [intro!]: "runtime_only (ret x)"
  by (simp add: runtime_only_def ret_def)

lemma runtime_only_throw [intro!]: "runtime_only (throw e)"
  by (simp add: runtime_only_def throw_def)

lemma runtime_only_of_result [intro!]: "runtime_only (of_result r)"
  by (simp add: runtime_only_def of_result_def)

lemma runtime_only_bnd [intro!]:
  assumes "runtime_only m" and "\<And>x. runtime_only (f x)"
  shows "runtime_only (bnd m f)"
  unfolding runtime_only_def
proof (intro allI impI)
  fix w r w'
  assume a: "bnd m f w = (r, w')"
  obtain r1 w1 where m: "m w = (r1, w1)" by (cases "m w")
  from runtime_onlyD[OF assms(1) m] obtain n1 where 1: "db w1 = db w" "calls w1 = calls w @ n1" by blast
  show "db w' = db w \<and> (\<exists>n. calls w' = calls w @ n)"
  proof (cases r1)
    case (Inl e)
    with a m have "w' = w1" by (simp add: bnd_def)
    with 1 show ?thesis by simp
  next
    case (Inr x)
    with a m have "f x w1 = (r, w')" by (simp add: bnd_def)
    from runtime_onlyD[OF assms(2) this] 1 show ?thesis by auto
  qed
qed

lemma runtime_only_try_except [intro!]:
  assumes "runtime_only m" and "\<And>e. runtime_only (h e)"
  shows "runtime_only (try_except m h)"
  unfolding runtime_only_def
proof (intro allI impI)
  fix w r w'
  assume a: "try_except m h w = (r, w')"
  obtain r1 w1 where m: "m w = (r1, w1)" by (cases "m w")
  from runtime_onlyD[OF assms(1) m] obtain n1 where 1: "db w1 = db w" "calls w1 = calls w @ n1" by blast
  show "db w' = db w \<and> (\<exists>n. calls w' = calls w @ n)"
  proof (cases r1)
    case (Inr x)
    with a m have "w' = w1" by (simp add: try_except_def)
    with 1 show ?thesis by simp
  next
    case (Inl e)
    with a m have "h e w1 = (r, w')" by (simp add: try_except_def)
    from runtime_onlyD[OF assms(2) this] 1 show ?thesis by auto
  qed
qed

lemma runtime_only_if [intro!]:
  "runtime_only a \<Longrightarrow> runtime_only b \<Longrightarrow> runtime_only (if c then a else b)"
  by simp

lemma runtime_only_for_each [intro!]:
  "(\<And>x. runtime_only (f x)) \<Longrightarrow> runtime_only (for_each xs f)"
  by (induction xs) auto

lemma runtime_only_calls [intro!]:
  "runtime_only (from_env R)" "runtime_only (networks_get R n)"
  "runtime_only (networks_create R n d)" "runtime_only (containers_list R a n)"
  "runtime_only (container_remove R c b)" "runtime_only (volumes_list R n)"
  "runtime_only (volumes_create R n)" "runtime_only (containers_run R args)"
  "runtime_only (images_get R n)" "runtime_only (images_build R p f t b)"
  "runtime_only (containers_get R n)" "runtime_only (container_start R c)"
  "runtime_only (container_stop R c)" "runtime_only (container_restart R c)"
  "runtime_only (container_stats R c b)"
  by (auto simp: from_env_def networks_get_def networks_create_def containers_list_def
      container_remove_def volumes_list_def volumes_create_def containers_run_def images_get_def
      images_build_def containers_get_def container_start_def container_stop_def
      container_restart_def container_stats_def)

lemma runtime_only_get_compose_file: "runtime_only (get_compose_file R pl)"
  by (auto simp: get_compose_file_def Let_def)

lemma runtime_only_build_main_image: "runtime_only (build_main_image R project)"
  by (auto simp: build_main_image_def Let_def)

lemma runtime_only_deploy_postgres: "runtime_only (deploy_postgres_container R project pw dbn)"
  by (auto simp: deploy_postgres_container_def Let_def)

lemma runtime_only_deploy_main: "runtime_only (deploy_main_container R project hp pw dbn)"
  by (auto simp: deploy_main_container_def Let_def intro: runtime_only_build_main_image)

lemma runtime_only_lifecycle_call: "runtime_only (lifecycle_call R action dc)"
  by (auto simp: lifecycle_call_def)

lemma visible_queue:
  "visible (d\<lparr>pending := pending d @ ops\<rparr>) = foldl apply_op (visible d) ops"
  by (simp add: visible_def)

lemma session_commit_cases:
  "session_commit R w = (r, w') \<Longrightarrow>
     (\<exists>e x. db_commit R (ext w) = (Inl e, x) \<and> r = Inl e \<and> w' = w\<lparr>ext := x\<rparr>)
   \<or> (\<exists>x. db_commit R (ext w) = (Inr (), x) \<and> r = Inr () \<and> w' = w\<lparr>ext := x, db := commit_db (db w)\<rparr>)"
  by (auto simp: session_commit_def bnd_def os_call_def split: prod.splits sum.splits)


lemma create_container_try_steps:
  assumes "create_container_try R uid pl w = (Inr v, w')"
  shows "\<exists>prt dbn project cwd wa pg wb main wc x.
           generate_unique_config uid = Inr (prt, dbn, project)
         \<and> os_call (os_getcwd R) w = (Inr cwd, wa)
         \<and> deploy_postgres_container R project ''db1'' dbn wa = (Inr pg, wb)
         \<and> deploy_main_container R project prt ''db1'' dbn wb = (Inr main, wc)
         \<and> db_commit R (ext wc) = (Inr (), x)
         \<and> v = Some (cname main)
         \<and> w' = wc\<lparr>ext := x, db := commit_db ((db w)\<lparr>pending := pending (db w) @
               [Add \<lparr>user_id = uid, container_id = cname main, port = prt,
                      db_name = dbn, plan = pl, status = ''running''\<rparr>,
                Add \<lparr>user_id = uid, container_id = cname pg, port = 5432,
                      db_name = dbn, plan = pl, status = ''running''\<rparr>]\<rparr>)\<rparr>"
proof -
  from assms obtain prt dbn project cf wa pg wb main wc wd we where
        g: "generate_unique_config uid = Inr (prt, dbn, project)"
    and cf: "get_compose_file R pl w = (Inr cf, wa)"
    and pg: "deploy_postgres_container R project ''db1'' dbn wa = (Inr pg, wb)"
    and main: "deploy_main_container R project prt ''db1'' dbn wb = (Inr main, wc)"
    and a1: "session_add \<lparr>user_id = uid, container_id = cname main, port = prt,
                       db_name = dbn, plan = pl, status = ''running''\<rparr> wc = (Inr (), wd)"
    and a2: "session_add \<lparr>user_id = uid, container_id = cname pg, port = 5432,
                       db_name = dbn, plan = pl, status = ''running''\<rparr> wd = (Inr (), we)"
    and cm: "session_commit R we = (Inr (), w')"
    and v: "v = Some (cname main)"
    unfolding create_container_try_def
    by (auto simp: Let_def of_result_def ret_def dest!: bnd_InrD split: prod.splits)
  from cf obtain cwd where cw: "os_call (os_getcwd R) w = (Inr cwd, wa)"
    by (auto simp: get_compose_file_def Let_def ret_def dest!: bnd_InrD)
  have dbs: "db wa = db w" "db wb = db wa" "db wc = db wb"
    using runtime_onlyD[OF runtime_only_get_compose_file cf]
      runtime_onlyD[OF runtime_only_deploy_postgres pg]
      runtime_onlyD[OF runtime_only_deploy_main main] by simp_all
  from a1 a2 have we: "we = wc\<lparr>db := (db wc)\<lparr>pending := pending (db wc) @
               [Add \<lparr>user_id = uid, container_id = cname main, port = prt,
                      db_name = dbn, plan = pl, status = ''running''\<rparr>,
                Add \<lparr>user_id = uid, container_id = cname pg, port = 5432,
                      db_name = dbn, plan = pl, status = ''running''\<rparr>]\<rparr>\<rparr>"
    by (auto simp: session_add_def)
  from session_commit_cases[OF cm] obtain x where
    x: "db_commit R (ext we) = (Inr (), x)" "w' = we\<lparr>ext := x, db := commit_db (db we)\<rparr>"
    by auto
  from x we dbs have "db_commit R (ext wc) = (Inr (), x)"
    and "w' = wc\<lparr>ext := x, db := commit_db ((db w)\<lparr>pending := pending (db w) @
               [Add \<lparr>user_id = uid, container_id = cname main, port = prt,
                      db_name = dbn, plan = pl, status = ''running''\<rparr>,
                Add \<lparr>user_id = uid, container_id = cname pg, port = 5432,
                      db_name = dbn, plan = pl, status = ''running''\<rparr>]\<rparr>)\<rparr>"
    by simp_all
  with g cw pg main v show ?thesis by blast
qed

lemma deploy_postgres_Inr:
  assumes "deploy_postgres_container R project pw dbn w = (Inr c, w')"
  shows "\<exists>wp. containers_run R (postgres_run_args (project @ ''_postgres'') (project @ ''_network'')
           (project @ ''_postgres_data'') pw dbn) wp = (Inr c, w')"
  using assms unfolding deploy_postgres_container_def Let_def
  by (auto dest!: bnd_InrD try_except_cases simp: throw_def split: if_splits)

lemma deploy_main_Inr:
  assumes "deploy_main_container R project hp pw dbn w = (Inr c, w')"
  shows "\<exists>wm. containers_run R (main_run_args (project @ ''_cyber:latest'') (project @ ''_cyber'')
           (project @ ''_network'') project hp pw dbn) wm = (Inr c, w')"
  using assms unfolding deploy_main_container_def Let_def
  by (auto dest!: bnd_InrD try_except_cases simp: throw_def split: if_splits)

lemma create_container_unfold:
  "from_env R w = (Inr client, w1) \<Longrightarrow>
   create_container R uid pl w = try_except (create_container_try R uid pl) (\<lambda>e. ret None) w1"
  by (simp add: create_container_def bnd_def)

lemma manage_container_unfold:
  "from_env R w = (Inr client, w1) \<Longrightarrow>
   manage_container R cid action w =
     try_bind (query_first R cid) (manage_container_except R action None) (\<lambda>container.
       try_except
         (case container of
            None \<Rightarrow> ret False
          | Some c \<Rightarrow> manage_container_found R cid action c)
         (manage_container_except R action (Some container))) w1"
  by (simp add: manage_container_def bnd_def)

lemma manage_container_after_query:
  "from_env R w = (Inr client, w1) \<Longrightarrow> query_first R cid w1 = (Inr (Some c), w2) \<Longrightarrow>
   manage_container R cid action w =
     try_except (manage_container_found R cid action c)
       (manage_container_except R action (Some (Some c))) w2"
  by (simp add: manage_container_unfold try_bind_def)

lemma query_first_db: "query_first R cid w = (r, w') \<Longrightarrow> db w' = db w \<and> calls w' = calls w"
  by (auto simp: query_first_def bnd_def os_call_def split: prod.splits sum.splits)

lemma query_first_Some:
  "query_first R cid w = (Inr (Some c), w') \<Longrightarrow> container_id c = cid \<and> c \<in> set (visible (db w))"
  by (auto simp: query_first_def bnd_def os_call_def find_Some_iff split: prod.splits sum.splits)

lemma manage_container_except_False:
  "\<not> (is_NotFound e \<and> action = ''remove'') \<Longrightarrow> manage_container_except R action loc e w = (Inr False, w)"
  by (auto simp: manage_container_except_def ret_def)

lemma manage_container_found_get_fails:
  "containers_get R cid w = (Inl e, w') \<Longrightarrow> manage_container_found R cid action c w = (Inl e, w')"
  by (simp add: manage_container_found_def bnd_def)

lemma manage_container_found_call_fails:
  "containers_get R cid w = (Inr dc, wg) \<Longrightarrow> lifecycle_call R action dc wg = (Inl e, w') \<Longrightarrow>
   manage_container_found R cid action c w = (Inl e, w')"
  by (auto simp: manage_container_found_def lifecycle_call_def bnd_def ret_def split: if_splits)

lemma manage_container_found_other_action:
  "containers_get R cid w = (Inr dc, w') \<Longrightarrow>
   action \<noteq> ''start'' \<Longrightarrow> action \<noteq> ''stop'' \<Longrightarrow> action \<noteq> ''remove'' \<Longrightarrow> action \<noteq> ''restart'' \<Longrightarrow>
   manage_container_found R cid action c w = (Inr True, w')"
  by (simp add: manage_container_found_def bnd_def ret_def)

lemma ids_update_first:
  "map container_id (update_first P (\<lambda>r. r\<lparr>status := s\<rparr>) rs) = map container_id rs"
  by (induction rs) simp_all

lemma set_remove_first: "set (remove_first P rs) \<subseteq> set rs"
  by (induction rs) auto

lemma distinct_remove_first:
  "distinct (map f rs) \<Longrightarrow> distinct (map f (remove_first P rs))"
proof (induction rs)
  case Nil
  then show ?case by simp
next
  case (Cons r rs)
  then show ?case using set_remove_first[of P rs] by auto
qed

lemma remove_first_absent:
  "distinct (map container_id rs) \<Longrightarrow>
   cid \<notin> container_id ` set (remove_first (\<lambda>r. container_id r = cid) rs)"
proof (induction rs)
  case Nil
  then show ?case by simp
next
  case (Cons r rs)
  then show ?case by (cases "container_id r = cid") auto
qed

lemma visible_commit_db: "visible (commit_db d) = visible d"
  by (simp add: commit_db_def visible_def)

lemma rows_commit_db: "rows (commit_db d) = visible d" "pending (commit_db d) = []"
  by (simp_all add: commit_db_def)

lemma distinct_apply_status:
  "distinct (map container_id rs) \<Longrightarrow> distinct (map container_id (apply_op rs (SetStatus cid s)))"
  by (simp add: ids_update_first)

lemma distinct_apply_delete:
  "distinct (map container_id rs) \<Longrightarrow> distinct (map container_id (apply_op rs (Delete cid)))"
  by (simp add: distinct_remove_first)

lemma keeps_uniqD: "keeps_uniq m \<Longrightarrow> m w = (r, w') \<Longrightarrow> uniq w \<Longrightarrow> uniq w'"
  by (auto simp: keeps_uniq_def)

lemma keeps_uniq_runtime_only: "runtime_only m \<Longrightarrow> keeps_uniq m"
  by (auto simp: keeps_uniq_def uniq_def dest: runtime_onlyD)

lemma keeps_uniq_ret: "keeps_uniq (ret x)"
  by (simp add: keeps_uniq_def ret_def)

lemma keeps_uniq_bnd:
  "keeps_uniq m \<Longrightarrow> (\<And>x. keeps_uniq (f x)) \<Longrightarrow> keeps_uniq (bnd m f)"
  unfolding keeps_uniq_def bnd_def by (auto split: prod.splits sum.splits)

lemma keeps_uniq_session_commit: "keeps_uniq (session_commit R)"
  unfolding keeps_uniq_def uniq_def
  by (auto dest!: session_commit_cases simp: visible_commit_db)

lemma keeps_uniq_session_delete: "keeps_uniq (session_delete c)"
  unfolding keeps_uniq_def uniq_def
  by (auto simp: session_delete_def visible_queue distinct_remove_first)

lemma keeps_uniq_queue_status:
  "keeps_uniq (\<lambda>w. (Inr (), w\<lparr>db := (db w)\<lparr>pending := pending (db w) @ [SetStatus cid s]\<rparr>\<rparr>))"
  unfolding keeps_uniq_def uniq_def by (auto simp: visible_queue ids_update_first)

lemma keeps_uniq_update_status: "keeps_uniq (update_status R c s)"
  unfolding update_status_def
  by (intro keeps_uniq_bnd keeps_uniq_queue_status keeps_uniq_session_commit)

lemma keeps_uniq_if: "keeps_uniq a \<Longrightarrow> keeps_uniq b \<Longrightarrow> keeps_uniq (if x then a else b)"
  by simp

lemma keeps_uniq_calls:
  "keeps_uniq (containers_get R n)" "keeps_uniq (container_start R dc)"
  "keeps_uniq (container_stop R dc)" "keeps_uniq (container_restart R dc)"
  "keeps_uniq (container_remove R dc b)"
  by (simp_all add: keeps_uniq_runtime_only runtime_only_calls)

lemma keeps_uniq_found: "keeps_uniq (manage_container_found R cid action c)"
  unfolding manage_container_found_def
  by (intro keeps_uniq_bnd keeps_uniq_if keeps_uniq_ret keeps_uniq_update_status
        keeps_uniq_session_delete keeps_uniq_session_commit keeps_uniq_calls)

lemma update_status_Inr:
  "update_status R c s w = (Inr (), w') \<Longrightarrow>
   db w' = commit_db ((db w)\<lparr>pending := pending (db w) @ [SetStatus (container_id c) s]\<rparr>)"
  by (auto simp: update_status_def dest!: bnd_InrD session_commit_cases)

lemma delete_commit_Inr:
  "session_commit R (snd (session_delete c w)) = (Inr (), w') \<Longrightarrow>
   db w' = commit_db ((db w)\<lparr>pending := pending (db w) @ [Delete (container_id c)]\<rparr>)"
  by (auto simp: session_delete_def dest!: session_commit_cases)

lemma finish_remove_db:
  assumes "update_status R c ''removed'' w = (Inr (), w4)"
      and "session_commit R (snd (session_delete c w4)) = (Inr (), w5)"
  shows "pending (db w5) = []"
    and "rows (db w5) = remove_first (\<lambda>r. container_id r = container_id c)
           (update_first (\<lambda>r. container_id r = container_id c) (\<lambda>r. r\<lparr>status := ''removed''\<rparr>)
              (visible (db w)))"
proof -
  let ?d4 = "(db w)\<lparr>pending := pending (db w) @ [SetStatus (container_id c) ''removed'']\<rparr>"
  have d4: "db w4 = commit_db ?d4" using update_status_Inr[OF assms(1)] .
  have d5: "db w5 = commit_db ((db w4)\<lparr>pending := pending (db w4) @ [Delete (container_id c)]\<rparr>)"
    using delete_commit_Inr[OF assms(2)] .
  show "pending (db w5) = []" unfolding d5 by (simp add: rows_commit_db)
  have "rows (db w5) = apply_op (visible (db w4)) (Delete (container_id c))"
    unfolding d5 by (simp only: rows_commit_db visible_queue foldl.simps)
  also have "visible (db w4) = apply_op (visible (db w)) (SetStatus (container_id c) ''removed'')"
    unfolding d4 by (simp only: visible_commit_db visible_queue foldl.simps)
  finally show "rows (db w5) = remove_first (\<lambda>r. container_id r = container_id c)
           (update_first (\<lambda>r. container_id r = container_id c) (\<lambda>r. r\<lparr>status := ''removed''\<rparr>)
              (visible (db w)))"
    by simp
qed

lemma finish_remove_absent:
  assumes "update_status R c ''removed'' w = (Inr (), w4)"
      and "session_commit R (snd (session_delete c w4)) = (Inr (), w5)"
      and "uniq w"
  shows "container_id c \<notin> container_id ` set (rows (db w5))"
proof -
  from assms(3) have "distinct (map container_id
      (update_first (\<lambda>r. container_id r = container_id c) (\<lambda>r. r\<lparr>status := ''removed''\<rparr>)
              (visible (db w))))"
    by (simp add: uniq_def ids_update_first)
  then show ?thesis unfolding finish_remove_db(2)[OF assms(1,2)] by (rule remove_first_absent)
qed

lemma remove_handler_Inr:
  assumes "manage_container_except R ''remove'' (Some (Some c)) e w = (Inr True, w')"
  shows "\<exists>w4. update_status R c ''removed'' w = (Inr (), w4)
             \<and> session_commit R (snd (session_delete c w4)) = (Inr (), w')"
  using assms
  by (auto simp: manage_container_except_def ret_def session_delete_def
        dest!: bnd_InrD split: if_splits)

lemma remove_found_Inr:
  assumes "manage_container_found R cid ''remove'' c w = (Inr b, w')"
  shows "\<exists>dc wg wr w4. containers_get R cid w = (Inr dc, wg)
             \<and> container_remove R dc True wg = (Inr (), wr)
             \<and> update_status R c ''removed'' wr = (Inr (), w4)
             \<and> session_commit R (snd (session_delete c w4)) = (Inr (), w')"
  using assms
  by (auto simp: manage_container_found_def ret_def session_delete_def dest!: bnd_InrD)




lemma issues_throw: "issues c (throw e)"
  by (simp add: issues_def throw_def)








lemma try_config_fails:
  "generate_unique_config uid = Inl e \<Longrightarrow> create_container_try R uid pl w = (Inl e, w)"
  by (simp add: create_container_try_def bnd_def of_result_def)

lemma try_getcwd_fails:
  "generate_unique_config uid = Inr (prt, dbn, project) \<Longrightarrow>
   os_call (os_getcwd R) w = (Inl e, wa) \<Longrightarrow>
   create_container_try R uid pl w = (Inl e, wa)"
  by (simp add: create_container_try_def bnd_def of_result_def get_compose_file_def)

lemma try_postgres_fails:
  "generate_unique_config uid = Inr (prt, dbn, project) \<Longrightarrow>
   os_call (os_getcwd R) w = (Inr cwd, wa) \<Longrightarrow>
   deploy_postgres_container R project ''db1'' dbn wa = (Inl e, wb) \<Longrightarrow>
   create_container_try R uid pl w = (Inl e, wb)"
  by (simp add: create_container_try_def bnd_def of_result_def get_compose_file_def Let_def ret_def)

lemma try_main_fails:
  "generate_unique_config uid = Inr (prt, dbn, project) \<Longrightarrow>
   os_call (os_getcwd R) w = (Inr cwd, wa) \<Longrightarrow>
   deploy_postgres_container R project ''db1'' dbn wa = (Inr pg, wb) \<Longrightarrow>
   deploy_main_container R project prt ''db1'' dbn wb = (Inl e, wc) \<Longrightarrow>
   create_container_try R uid pl w = (Inl e, wc)"
  by (simp add: create_container_try_def bnd_def of_result_def get_compose_file_def Let_def ret_def)

lemma try_commit_fails:
  "generate_unique_config uid = Inr (prt, dbn, project) \<Longrightarrow>
   os_call (os_getcwd R) w = (Inr cwd, wa) \<Longrightarrow>
   deploy_postgres_container R project ''db1'' dbn wa = (Inr pg, wb) \<Longrightarrow>
   deploy_main_container R project prt ''db1'' dbn wb = (Inr main, wc) \<Longrightarrow>
   db_commit R (ext wc) = (Inl e, x) \<Longrightarrow>
   create_container_try R uid pl w =
     (Inl e, wc\<lparr>ext := x, db := (db wc)\<lparr>pending := pending (db wc) @
        [Add \<lparr>user_id = uid, container_id = cname main, port = prt,
               db_name = dbn, plan = pl, status = ''running''\<rparr>,
         Add \<lparr>user_id = uid, container_id = cname pg, port = 5432,
               db_name = dbn, plan = pl, status = ''running''\<rparr>]\<rparr>\<rparr>)"
  by (simp add: create_container_try_def bnd_def of_result_def get_compose_file_def Let_def ret_def
        session_add_def session_commit_def os_call_def)

lemma try_commit_succeeds:
  "generate_unique_config uid = Inr (prt, dbn, project) \<Longrightarrow>
   os_call (os_getcwd R) w = (Inr cwd, wa) \<Longrightarrow>
   deploy_postgres_container R project ''db1'' dbn wa = (Inr pg, wb) \<Longrightarrow>
   deploy_main_container R project prt ''db1'' dbn wb = (Inr main, wc) \<Longrightarrow>
   db_commit R (ext wc) = (Inr u, x) \<Longrightarrow>
   create_container_try R uid pl w =
     (Inr (Some (cname main)), wc\<lparr>ext := x, db := commit_db ((db wc)\<lparr>pending := pending (db wc) @
        [Add \<lparr>user_id = uid, container_id = cname main, port = prt,
               db_name = dbn, plan = pl, status = ''running''\<rparr>,
         Add \<lparr>user_id = uid, container_id = cname pg, port = 5432,
               db_name = dbn, plan = pl, status = ''running''\<rparr>]\<rparr>)\<rparr>)"
  by (simp add: create_container_try_def bnd_def of_result_def get_compose_file_def Let_def ret_def
        session_add_def session_commit_def os_call_def)

lemma world_untouched:
  fixes w' :: "'r world"
  shows "db w' = d \<Longrightarrow> w' = \<lparr>ext = ext w', calls = calls w', db = db_with d Untouched rs\<rparr>"
  by simp

section \<open>Evaluation of the concrete inputs\<close>

lemma below_digit_limit: "n < 10000 \<Longrightarrow> \<not> (10 :: int) ^ int_max_str_digits \<le> n"
proof -
  have "(10 :: int) ^ 4 \<le> 10 ^ int_max_str_digits"
    by (rule power_increasing) (simp_all add: int_max_str_digits_def)
  then show "n < 10000 \<Longrightarrow> \<not> (10 :: int) ^ int_max_str_digits \<le> n" by simp
qed

lemma few_digits: "k \<le> 100 \<Longrightarrow> k \<le> int_max_str_digits"
  by (simp add: int_max_str_digits_def)

lemmas config_defs = generate_unique_config_def below_digit_limit few_digits str_of_int_def
  str_of_nat.simps digit_char_def py_int_of_str_def py_strip_def py_isspace_def is_digit_def
  digit_val_def

lemmas prog_defs = ret_def throw_def bnd_def try_except_def try_bind_def of_result_def
  docker_call_def os_call_def from_env_def networks_get_def networks_create_def
  containers_list_def container_remove_def volumes_list_def volumes_create_def
  containers_run_def images_get_def images_build_def containers_get_def container_start_def
  container_stop_def container_restart_def container_stats_def session_add_def
  session_delete_def session_commit_def commit_db_def visible_def query_first_def
  update_status_def

lemmas input_defs = fresh_env_def down_env_def run_fails_env_def gone_env_def start_fails_env_def
  build_fails_env_def no_cwd_env_def commit_fails_env_def
  empty_world_def world_42_def record_42_def

lemmas create_defs = create_container_def create_container_try_def generate_unique_config_def
  below_digit_limit str_of_int_def str_of_nat.simps digit_char_def get_compose_file_def
  deploy_postgres_container_def deploy_main_container_def build_main_image_def
  postgres_run_args_def main_run_args_def path_join_def path_dirname_def Let_def

lemmas manage_defs = manage_container_def manage_container_found_def
  manage_container_except_def lifecycle_call_def

lemma create_fresh_42:
  "create_container fresh_env (IntId 42) ''basic'' empty_world
     = (Inr (Some ''cyber_42_cyber''), created_42)"
  unfolding created_42_def by (simp add: create_defs prog_defs input_defs)

lemma config_42: "generate_unique_config (IntId 42) = Inr (5042, ''db_42'', ''cyber_42'')"
  by (simp add: config_defs)

lemma generate_unique_config_Inr:
  "generate_unique_config u = Inr (p, d, n) \<Longrightarrow>
     \<exists>text. py_int u = Inr (p - 5000) \<and> py_str u = Inr text
          \<and> d = ''db_'' @ text \<and> n = ''cyber_'' @ text"
  by (auto simp: generate_unique_config_def split: sum.splits)

lemma config_1: "generate_unique_config (IntId 1) = Inr (5001, ''db_1'', ''cyber_1'')"
  by (simp add: config_defs)

lemma config_2: "generate_unique_config (IntId 2) = Inr (5002, ''db_2'', ''cyber_2'')"
  by (simp add: config_defs)

section \<open>The claims\<close>

subsection \<open>Provisioning\<close>

text \<open>
  C1. When \<open>create_container\<close> returns a name, the run went from the starting state
  through the acquisition of the client, the working directory, the deployment of the
  database container and the deployment of the application container, each from the
  state the one before left; each deployment ended with the runtime's \<open>run\<close> call for
  its container, and the container object that call returned is the one recorded. The
  final state is the state after the application's \<open>run\<close> with one commit more: the new
  batch ends with the record of the application container (the derived host port) and
  the record of the database container (port 5432), both \<open>running\<close>, the table is the
  table the session saw before plus these two rows, and nothing is left pending. The
  name returned is the name the runtime reports for the application container.
\<close>

theorem create_container_success:
  assumes "create_container R uid pl w = (Inr (Some nm), w')"
  shows "\<exists>prt dbn project client w1 cwd wa pg wp wb main wm wc x.
           generate_unique_config uid = Inr (prt, dbn, project)
         \<and> from_env R w = (Inr client, w1)
         \<and> os_call (os_getcwd R) w1 = (Inr cwd, wa)
         \<and> deploy_postgres_container R project ''db1'' dbn wa = (Inr pg, wb)
         \<and> containers_run R
               \<lparr>image_ref = ''postgres:latest'', name_arg = project @ ''_postgres'', detach = True,
                environment = [(''POSTGRES_USER'', ''postgres''), (''POSTGRES_PASSWORD'', ''db1''),
                               (''POSTGRES_DB'', dbn)],
                volumes = [(project @ ''_postgres_data'', ''/var/lib/postgresql/data'', ''rw'')],
                ports = [(''5432/tcp'', None)], restart_policy = ''unless-stopped'',
                network = project @ ''_network''\<rparr> wp = (Inr pg, wb)
         \<and> deploy_main_container R project prt ''db1'' dbn wb = (Inr main, wc)
         \<and> containers_run R
               \<lparr>image_ref = project @ ''_cyber:latest'', name_arg = project @ ''_cyber'', detach = True,
                environment = [(''SQLALCHEMY_DATABASE_URI'',
                                  ''postgresql://postgres:'' @ ''db1'' @ ''@'' @ project @ ''_postgres/'' @ dbn),
                               (''POSTGRES_HOST'', project @ ''_postgres''),
                               (''POSTGRES_USER'', ''postgres''), (''POSTGRES_PASSWORD'', ''db1''),
                               (''POSTGRES_DB'', dbn)],
                volumes = [], ports = [(''5000'', Some prt)],
                restart_policy = ''unless-stopped'', network = project @ ''_network''\<rparr> wm = (Inr main, wc)
         \<and> db_commit R (ext wc) = (Inr (), x)
         \<and> nm = cname main
         \<and> w' = wc\<lparr>ext := x, db := commit_db ((db w)\<lparr>pending := pending (db w) @
                   [Add \<lparr>user_id = uid, container_id = cname main, port = prt,
                          db_name = dbn, plan = pl, status = ''running''\<rparr>,
                    Add \<lparr>user_id = uid, container_id = cname pg, port = 5432,
                          db_name = dbn, plan = pl, status = ''running''\<rparr>]\<rparr>)\<rparr>
         \<and> pending (db w') = []
         \<and> commit_log (db w') = commit_log (db w) @ [pending (db w) @
                   [Add \<lparr>user_id = uid, container_id = cname main, port = prt,
                          db_name = dbn, plan = pl, status = ''running''\<rparr>,
                    Add \<lparr>user_id = uid, container_id = cname pg, port = 5432,
                          db_name = dbn, plan = pl, status = ''running''\<rparr>]]
         \<and> rows (db w') = visible (db w) @
               [\<lparr>user_id = uid, container_id = cname main, port = prt,
                      db_name = dbn, plan = pl, status = ''running''\<rparr>,
                \<lparr>user_id = uid, container_id = cname pg, port = 5432,
                      db_name = dbn, plan = pl, status = ''running''\<rparr>]"
proof -
  from assms obtain client w1 where fe: "from_env R w = (Inr client, w1)"
    and t: "try_except (create_container_try R uid pl) (\<lambda>e. ret None) w1 = (Inr (Some nm), w')"
    unfolding create_container_def by (blast dest: bnd_InrD)
  from try_except_cases[OF t] have body: "create_container_try R uid pl w1 = (Inr (Some nm), w')"
    by (auto simp: ret_def)
  have dbw: "db w1 = db w" using runtime_onlyD[OF runtime_only_calls(1) fe] by simp
  from create_container_try_steps[OF body] obtain prt dbn project cwd wa pg wb main wc x where
        g: "generate_unique_config uid = Inr (prt, dbn, project)"
    and cw: "os_call (os_getcwd R) w1 = (Inr cwd, wa)"
    and pg: "deploy_postgres_container R project ''db1'' dbn wa = (Inr pg, wb)"
    and mn: "deploy_main_container R project prt ''db1'' dbn wb = (Inr main, wc)"
    and cm: "db_commit R (ext wc) = (Inr (), x)"
    and nm: "Some nm = Some (cname main)"
    and w': "w' = wc\<lparr>ext := x, db := commit_db ((db w1)\<lparr>pending := pending (db w1) @
                   [Add \<lparr>user_id = uid, container_id = cname main, port = prt,
                          db_name = dbn, plan = pl, status = ''running''\<rparr>,
                    Add \<lparr>user_id = uid, container_id = cname pg, port = 5432,
                          db_name = dbn, plan = pl, status = ''running''\<rparr>]\<rparr>)\<rparr>"
    by blast
  from deploy_postgres_Inr[OF pg] obtain wp where
    rp: "containers_run R (postgres_run_args (project @ ''_postgres'') (project @ ''_network'')
           (project @ ''_postgres_data'') ''db1'' dbn) wp = (Inr pg, wb)" by blast
  from deploy_main_Inr[OF mn] obtain wm where
    rm: "containers_run R (main_run_args (project @ ''_cyber:latest'') (project @ ''_cyber'')
           (project @ ''_network'') project prt ''db1'' dbn) wm = (Inr main, wc)" by blast
  note rp' = rp[unfolded postgres_run_args_def]
  note rm' = rm[unfolded main_run_args_def]
  have w'': "w' = wc\<lparr>ext := x, db := commit_db ((db w)\<lparr>pending := pending (db w) @
                   [Add \<lparr>user_id = uid, container_id = cname main, port = prt,
                          db_name = dbn, plan = pl, status = ''running''\<rparr>,
                    Add \<lparr>user_id = uid, container_id = cname pg, port = 5432,
                          db_name = dbn, plan = pl, status = ''running''\<rparr>]\<rparr>)\<rparr>"
    using w' dbw by simp
  have p: "pending (db w') = []" unfolding w'' by (simp add: commit_db_def)
  have l: "commit_log (db w') = commit_log (db w) @ [pending (db w) @
                   [Add \<lparr>user_id = uid, container_id = cname main, port = prt,
                          db_name = dbn, plan = pl, status = ''running''\<rparr>,
                    Add \<lparr>user_id = uid, container_id = cname pg, port = 5432,
                          db_name = dbn, plan = pl, status = ''running''\<rparr>]]"
    unfolding w'' by (simp add: commit_db_def)
  have r: "rows (db w') = visible (db w) @
               [\<lparr>user_id = uid, container_id = cname main, port = prt,
                      db_name = dbn, plan = pl, status = ''running''\<rparr>,
                \<lparr>user_id = uid, container_id = cname pg, port = 5432,
                      db_name = dbn, plan = pl, status = ''running''\<rparr>]"
    unfolding w'' by (simp add: commit_db_def visible_queue)
  from nm have nm': "nm = cname main" by simp
  show ?thesis
    apply (rule exI[where x = prt], rule exI[where x = dbn], rule exI[where x = project])
    apply (rule exI[where x = client], rule exI[where x = w1], rule exI[where x = cwd])
    apply (rule exI[where x = wa], rule exI[where x = pg], rule exI[where x = wp])
    apply (rule exI[where x = wb], rule exI[where x = main], rule exI[where x = wm])
    apply (rule exI[where x = wc], rule exI[where x = x])
    apply (intro conjI)
    subgoal by (rule g)
    subgoal by (rule fe)
    subgoal by (rule cw)
    subgoal by (rule pg)
    subgoal by (rule rp')
    subgoal by (rule mn)
    subgoal by (rule rm')
    subgoal by (rule cm)
    subgoal by (rule nm')
    subgoal by (rule w'')
    subgoal by (rule p)
    subgoal by (rule l)
    subgoal by (rule r)
    done
qed

theorem create_container_success_witness:
  "create_container fresh_env (IntId 42) ''basic'' empty_world
     = (Inr (Some ''cyber_42_cyber''), created_42)
   \<and> rows (db created_42) =
        [\<lparr>user_id = IntId 42, container_id = ''cyber_42_cyber'', port = 5042,
            db_name = ''db_42'', plan = ''basic'', status = ''running''\<rparr>,
         \<lparr>user_id = IntId 42, container_id = ''cyber_42_postgres'', port = 5432,
            db_name = ''db_42'', plan = ''basic'', status = ''running''\<rparr>]
   \<and> (\<exists>prt dbn project client w1 cwd wa pg wp wb main wm wc x.
           generate_unique_config (IntId 42) = Inr (prt, dbn, project)
         \<and> from_env fresh_env empty_world = (Inr client, w1)
         \<and> os_call (os_getcwd fresh_env) w1 = (Inr cwd, wa)
         \<and> deploy_postgres_container fresh_env project ''db1'' dbn wa = (Inr pg, wb)
         \<and> containers_run fresh_env
               \<lparr>image_ref = ''postgres:latest'', name_arg = project @ ''_postgres'', detach = True,
                environment = [(''POSTGRES_USER'', ''postgres''), (''POSTGRES_PASSWORD'', ''db1''),
                               (''POSTGRES_DB'', dbn)],
                volumes = [(project @ ''_postgres_data'', ''/var/lib/postgresql/data'', ''rw'')],
                ports = [(''5432/tcp'', None)], restart_policy = ''unless-stopped'',
                network = project @ ''_network''\<rparr> wp = (Inr pg, wb)
         \<and> deploy_main_container fresh_env project prt ''db1'' dbn wb = (Inr main, wc)
         \<and> containers_run fresh_env
               \<lparr>image_ref = project @ ''_cyber:latest'', name_arg = project @ ''_cyber'', detach = True,
                environment = [(''SQLALCHEMY_DATABASE_URI'',
                                  ''postgresql://postgres:'' @ ''db1'' @ ''@'' @ project @ ''_postgres/'' @ dbn),
                               (''POSTGRES_HOST'', project @ ''_postgres''),
                               (''POSTGRES_USER'', ''postgres''), (''POSTGRES_PASSWORD'', ''db1''),
                               (''POSTGRES_DB'', dbn)],
                volumes = [], ports = [(''5000'', Some prt)],
                restart_policy = ''unless-stopped'', network = project @ ''_network''\<rparr> wm = (Inr main, wc)
         \<and> db_commit fresh_env (ext wc) = (Inr (), x)
         \<and> ''cyber_42_cyber'' = cname main
         \<and> created_42 = wc\<lparr>ext := x, db := commit_db ((db empty_world)\<lparr>pending := pending (db empty_world) @
                   [Add \<lparr>user_id = (IntId 42), container_id = cname main, port = prt,
                          db_name = dbn, plan = ''basic'', status = ''running''\<rparr>,
                    Add \<lparr>user_id = (IntId 42), container_id = cname pg, port = 5432,
                          db_name = dbn, plan = ''basic'', status = ''running''\<rparr>]\<rparr>)\<rparr>
         \<and> pending (db created_42) = []
         \<and> commit_log (db created_42) = commit_log (db empty_world) @ [pending (db empty_world) @
                   [Add \<lparr>user_id = (IntId 42), container_id = cname main, port = prt,
                          db_name = dbn, plan = ''basic'', status = ''running''\<rparr>,
                    Add \<lparr>user_id = (IntId 42), container_id = cname pg, port = 5432,
                          db_name = dbn, plan = ''basic'', status = ''running''\<rparr>]]
         \<and> rows (db created_42) = visible (db empty_world) @
               [\<lparr>user_id = (IntId 42), container_id = cname main, port = prt,
                      db_name = dbn, plan = ''basic'', status = ''running''\<rparr>,
                \<lparr>user_id = (IntId 42), container_id = cname pg, port = 5432,
                      db_name = dbn, plan = ''basic'', status = ''running''\<rparr>])"
proof -
  have "rows (db created_42) =
        [\<lparr>user_id = IntId 42, container_id = ''cyber_42_cyber'', port = 5042,
            db_name = ''db_42'', plan = ''basic'', status = ''running''\<rparr>,
         \<lparr>user_id = IntId 42, container_id = ''cyber_42_postgres'', port = 5432,
            db_name = ''db_42'', plan = ''basic'', status = ''running''\<rparr>]"
    unfolding created_42_def by (simp add: create_defs prog_defs input_defs)
  with create_container_success[OF create_fresh_42] create_fresh_42 show ?thesis by blast
qed

text \<open>
  C2. Once the client handle is acquired (the statement before the \<open>try\<close> block), every
  exception raised inside the block makes \<open>create_container\<close> return \<open>None\<close>; a value
  is returned only when the whole block ran; and the call always returns instead of
  raising. Step by step: an exception of the configuration, of the compose file path,
  of the database deployment, of the application deployment or of the commit gives
  \<open>None\<close>, and a failed commit leaves the table and the commit log as they were.
\<close>

theorem create_container_catches_all:
  assumes "from_env R w = (Inr client, w1)"
  shows "(\<forall>e w2. create_container_try R uid pl w1 = (Inl e, w2)
            \<longrightarrow> create_container R uid pl w = (Inr None, w2))
       \<and> (\<forall>v w2. create_container_try R uid pl w1 = (Inr v, w2)
            \<longrightarrow> create_container R uid pl w = (Inr v, w2))
       \<and> (\<exists>v w2. create_container R uid pl w = (Inr v, w2))
       \<and> (\<forall>e. generate_unique_config uid = Inl e
            \<longrightarrow> create_container R uid pl w = (Inr None, w1))
       \<and> (\<forall>prt dbn project. generate_unique_config uid = Inr (prt, dbn, project) \<longrightarrow>
            (\<forall>e wa. os_call (os_getcwd R) w1 = (Inl e, wa)
               \<longrightarrow> create_container R uid pl w = (Inr None, wa))
          \<and> (\<forall>cwd wa. os_call (os_getcwd R) w1 = (Inr cwd, wa) \<longrightarrow>
               (\<forall>e wb. deploy_postgres_container R project ''db1'' dbn wa = (Inl e, wb)
                  \<longrightarrow> create_container R uid pl w = (Inr None, wb))
             \<and> (\<forall>pg wb. deploy_postgres_container R project ''db1'' dbn wa = (Inr pg, wb) \<longrightarrow>
                  (\<forall>e wc. deploy_main_container R project prt ''db1'' dbn wb = (Inl e, wc)
                     \<longrightarrow> create_container R uid pl w = (Inr None, wc))
                \<and> (\<forall>main wc e x. deploy_main_container R project prt ''db1'' dbn wb = (Inr main, wc)
                        \<and> db_commit R (ext wc) = (Inl e, x)
                     \<longrightarrow> fst (create_container R uid pl w) = Inr None
                       \<and> rows (db (snd (create_container R uid pl w))) = rows (db w)
                       \<and> commit_log (db (snd (create_container R uid pl w))) = commit_log (db w)))))"
proof -
  have u: "create_container R uid pl w = try_except (create_container_try R uid pl) (\<lambda>e. ret None) w1"
    using assms by (rule create_container_unfold)
  have caught: "create_container R uid pl w = (Inr None, w2)"
    if "create_container_try R uid pl w1 = (Inl e, w2)" for e w2
    using that by (simp add: u try_except_def ret_def)
  have passed: "create_container R uid pl w = (Inr v, w2)"
    if "create_container_try R uid pl w1 = (Inr v, w2)" for v w2
    using that by (simp add: u try_except_def)
  have returns: "\<exists>v w2. create_container R uid pl w = (Inr v, w2)"
  proof -
    obtain r w2 where b: "create_container_try R uid pl w1 = (r, w2)"
      by (cases "create_container_try R uid pl w1")
    show ?thesis using b caught passed by (cases r) auto
  qed
  have d1: "db w1 = db w" using runtime_onlyD[OF runtime_only_calls(1) assms] by simp
  have commit: "fst (create_container R uid pl w) = Inr None
                \<and> rows (db (snd (create_container R uid pl w))) = rows (db w)
                \<and> commit_log (db (snd (create_container R uid pl w))) = commit_log (db w)"
    if cfg: "generate_unique_config uid = Inr (prt, dbn, project)"
      and cw: "os_call (os_getcwd R) w1 = (Inr cwd, wa)"
      and pg: "deploy_postgres_container R project ''db1'' dbn wa = (Inr pg, wb)"
      and h: "deploy_main_container R project prt ''db1'' dbn wb = (Inr main, wc)
              \<and> db_commit R (ext wc) = (Inl e, x)"
    for prt dbn project cwd wa pg wb main wc e x
  proof -
    from h have mn: "deploy_main_container R project prt ''db1'' dbn wb = (Inr main, wc)"
      and cm: "db_commit R (ext wc) = (Inl e, x)" by simp_all
    have "db wc = db w"
      using os_call_result[OF cw] runtime_onlyD[OF runtime_only_deploy_postgres pg]
        runtime_onlyD[OF runtime_only_deploy_main mn] d1 by simp
    then show ?thesis
      using caught[OF try_commit_fails[OF cfg cw pg mn cm]] by simp
  qed
  show ?thesis
    apply (intro conjI allI impI)
    subgoal by (erule caught)
    subgoal by (erule passed)
    subgoal by (rule returns)
    subgoal by (rule caught, erule try_config_fails)
    subgoal by (rule caught, rule try_getcwd_fails, assumption+)
    subgoal by (rule caught, rule try_postgres_fails, assumption+)
    subgoal by (rule caught, rule try_main_fails, assumption+)
    subgoal for prt dbn project cwd wa pg wb main wc e x
      using commit[of prt dbn project cwd wa pg wb main wc e x] by simp
    subgoal for prt dbn project cwd wa pg wb main wc e x
      using commit[of prt dbn project cwd wa pg wb main wc e x] by simp
    subgoal for prt dbn project cwd wa pg wb main wc e x
      using commit[of prt dbn project cwd wa pg wb main wc e x] by simp
    done
qed

theorem create_container_catches_all_witness:
  "create_container fresh_env (StrId ''abc'') ''basic'' empty_world
     = (Inr None, empty_world\<lparr>calls := [FromEnv]\<rparr>)
   \<and> fst (create_container no_cwd_env (IntId 42) ''basic'' empty_world) = Inr None
   \<and> fst (create_container run_fails_env (IntId 42) ''basic'' empty_world) = Inr None
   \<and> fst (create_container build_fails_env (IntId 42) ''basic'' empty_world) = Inr None
   \<and> fst (create_container commit_fails_env (IntId 42) ''basic'' empty_world) = Inr None
   \<and> rows (db (snd (create_container commit_fails_env (IntId 42) ''basic'' empty_world))) = []"
proof -
  let ?w1 = "empty_world\<lparr>calls := [FromEnv]\<rparr>"
  have fe: "from_env fresh_env empty_world = (Inr (), ?w1)"
       "from_env no_cwd_env empty_world = (Inr (), ?w1)"
       "from_env run_fails_env empty_world = (Inr (), ?w1)"
       "from_env build_fails_env empty_world = (Inr (), ?w1)"
       "from_env commit_fails_env empty_world = (Inr (), ?w1)"
    by (simp_all add: prog_defs input_defs)
  have bad: "generate_unique_config (StrId ''abc'')
               = Inl (ValueError ''invalid literal for int() with base 10'')"
    by (simp add: config_defs)
  have 1: "create_container fresh_env (StrId ''abc'') ''basic'' empty_world = (Inr None, ?w1)"
    using create_container_catches_all[OF fe(1), of "StrId ''abc''" "''basic''"] bad by blast
  have cw: "os_call (os_getcwd no_cwd_env) ?w1 = (Inl (OSError ''No such file or directory''), ?w1)"
    by (simp add: prog_defs input_defs)
  have "create_container no_cwd_env (IntId 42) ''basic'' empty_world = (Inr None, ?w1)"
    using create_container_catches_all[OF fe(2), of "IntId 42" "''basic''"] config_42 cw by blast
  then have 2: "fst (create_container no_cwd_env (IntId 42) ''basic'' empty_world) = Inr None"
    by simp
  have cw3: "os_call (os_getcwd run_fails_env) ?w1 = (Inr ''/srv/app'', ?w1)"
    by (simp add: prog_defs input_defs)
  obtain wb3 where pg3: "deploy_postgres_container run_fails_env ''cyber_42'' ''db1'' ''db_42'' ?w1
      = (Inl (PyException ''Failed to deploy Postgres: port is already allocated''), wb3)"
    by (simp add: create_defs prog_defs input_defs)
  have "create_container run_fails_env (IntId 42) ''basic'' empty_world = (Inr None, wb3)"
    using create_container_catches_all[OF fe(3), of "IntId 42" "''basic''"] config_42 cw3 pg3
    by blast
  then have 3: "fst (create_container run_fails_env (IntId 42) ''basic'' empty_world) = Inr None"
    by simp
  have cw4: "os_call (os_getcwd build_fails_env) ?w1 = (Inr ''/srv/app'', ?w1)"
    by (simp add: prog_defs input_defs)
  obtain pg wb where pg4: "deploy_postgres_container build_fails_env ''cyber_42'' ''db1'' ''db_42'' ?w1
      = (Inr pg, wb)"
    by (simp add: create_defs prog_defs input_defs)
  obtain wc4 where mn4: "deploy_main_container build_fails_env ''cyber_42'' 5042 ''db1'' ''db_42'' wb
      = (Inl (PyException ''Failed to build image for cyber_42: no Dockerfile''), wc4)"
    using pg4 by (auto simp: create_defs prog_defs input_defs)
  have "create_container build_fails_env (IntId 42) ''basic'' empty_world = (Inr None, wc4)"
    using create_container_catches_all[OF fe(4), of "IntId 42" "''basic''"] config_42 cw4 pg4 mn4
    by blast
  then have 4: "fst (create_container build_fails_env (IntId 42) ''basic'' empty_world) = Inr None"
    by simp
  have cw5: "os_call (os_getcwd commit_fails_env) ?w1 = (Inr ''/srv/app'', ?w1)"
    by (simp add: prog_defs input_defs)
  obtain pg5 wb5 where pg5: "deploy_postgres_container commit_fails_env ''cyber_42'' ''db1'' ''db_42'' ?w1
      = (Inr pg5, wb5)"
    by (simp add: create_defs prog_defs input_defs)
  obtain mn5 wc5 where mn5: "deploy_main_container commit_fails_env ''cyber_42'' 5042 ''db1'' ''db_42'' wb5
      = (Inr mn5, wc5)"
    using pg5 by (auto simp: create_defs prog_defs input_defs)
  have cm5: "db_commit commit_fails_env (ext wc5) = (Inl (OtherException ''IntegrityError''), ())"
    by (simp add: input_defs)
  have r5: "rows (db empty_world) = []" by (simp add: empty_world_def)
  have "fst (create_container commit_fails_env (IntId 42) ''basic'' empty_world) = Inr None
     \<and> rows (db (snd (create_container commit_fails_env (IntId 42) ''basic'' empty_world)))
         = rows (db empty_world)"
    using create_container_catches_all[OF fe(5), of "IntId 42" "''basic''"] config_42 cw5 pg5 mn5 cm5
    by blast
  with r5 have 5: "fst (create_container commit_fails_env (IntId 42) ''basic'' empty_world) = Inr None
     \<and> rows (db (snd (create_container commit_fails_env (IntId 42) ''basic'' empty_world))) = []"
    by simp
  from 1 2 3 4 5 show ?thesis by blast
qed

text \<open>
  C9. For a fixed tenant and starting state, the result of \<open>create_container\<close>, the
  calls made to the runtime (with all their arguments) and the state of the outside
  world are the same for every plan. The plan appears only in the \<open>plan\<close> field of the
  two records the run queues or commits; the compose file path, computed from the
  plan, reaches no call.
\<close>

theorem create_container_plan_independent:
  fixes R :: "'r env"
  shows "\<exists>res x cs m g st. \<forall>pl.
      create_container R uid pl w =
        (res, \<lparr>ext = x, calls = cs, db = db_with (db w) st [m\<lparr>plan := pl\<rparr>, g\<lparr>plan := pl\<rparr>]\<rparr>)"
proof -
  let ?goal = "\<lambda>res x cs m g st. \<forall>pl.
      create_container R uid pl w =
        (res, \<lparr>ext = x, calls = cs, db = db_with (db w) st [m\<lparr>plan := pl\<rparr>, g\<lparr>plan := pl\<rparr>]\<rparr>)"
  obtain r1 w1 where fe: "from_env R w = (r1, w1)" by (cases "from_env R w")
  have d1: "db w1 = db w" using runtime_onlyD[OF runtime_only_calls(1) fe] by simp
  have untouched: "?goal res (ext w') (calls w') undefined undefined Untouched"
    if "\<And>pl. create_container R uid pl w = (res, w')" "db w' = db w" for res and w' :: "'r world"
    using that by simp
  show ?thesis
  proof (cases r1)
    case (Inl e)
    with fe have "\<And>pl. create_container R uid pl w = (Inl e, w1)"
      by (simp add: create_container_def bnd_def)
    from untouched[OF this d1] show ?thesis by blast
  next
    case (Inr client)
    with fe have u: "\<And>pl. create_container R uid pl w =
        try_except (create_container_try R uid pl) (\<lambda>e. ret None) w1"
      by (simp add: create_container_unfold)
    show ?thesis
    proof (cases "generate_unique_config uid")
      case (Inl e)
      have "\<And>pl. create_container R uid pl w = (Inr None, w1)"
        by (simp add: u try_config_fails[OF Inl] try_except_def ret_def)
      from untouched[OF this d1] show ?thesis by blast
    next
      case (Inr cfg)
      obtain prt dbn project where cfg: "generate_unique_config uid = Inr (prt, dbn, project)"
        using Inr by (cases cfg) simp
      obtain rc wa where cw: "os_call (os_getcwd R) w1 = (rc, wa)" by (cases "os_call (os_getcwd R) w1")
      have da: "db wa = db w" using os_call_result[OF cw] d1 by simp
      show ?thesis
      proof (cases rc)
        case (Inl e)
        have "\<And>pl. create_container R uid pl w = (Inr None, wa)"
          by (simp add: u try_getcwd_fails[OF cfg cw[unfolded Inl]] try_except_def ret_def)
        from untouched[OF this da] show ?thesis by blast
      next
        case (Inr cwd)
        note cw = cw[unfolded Inr]
        obtain rp wb where pg: "deploy_postgres_container R project ''db1'' dbn wa = (rp, wb)"
          by (cases "deploy_postgres_container R project ''db1'' dbn wa")
        have db': "db wb = db w" using runtime_onlyD[OF runtime_only_deploy_postgres pg] da by simp
        show ?thesis
        proof (cases rp)
          case (Inl e)
          have "\<And>pl. create_container R uid pl w = (Inr None, wb)"
            by (simp add: u try_postgres_fails[OF cfg cw pg[unfolded Inl]] try_except_def ret_def)
          from untouched[OF this db'] show ?thesis by blast
        next
          case (Inr pgc)
          note pg = pg[unfolded Inr]
          obtain rm wc where mn: "deploy_main_container R project prt ''db1'' dbn wb = (rm, wc)"
            by (cases "deploy_main_container R project prt ''db1'' dbn wb")
          have dc: "db wc = db w" using runtime_onlyD[OF runtime_only_deploy_main mn] db' by simp
          show ?thesis
          proof (cases rm)
            case (Inl e)
            have "\<And>pl. create_container R uid pl w = (Inr None, wc)"
              by (simp add: u try_main_fails[OF cfg cw pg mn[unfolded Inl]] try_except_def ret_def)
            from untouched[OF this dc] show ?thesis by blast
          next
            case (Inr mainc)
            note mn = mn[unfolded Inr]
            let ?m = "\<lparr>user_id = uid, container_id = cname mainc, port = prt,
               db_name = dbn, plan = [], status = ''running''\<rparr>"
            let ?g = "\<lparr>user_id = uid, container_id = cname pgc, port = 5432,
               db_name = dbn, plan = [], status = ''running''\<rparr>"
            obtain rk x where cm: "db_commit R (ext wc) = (rk, x)" by (cases "db_commit R (ext wc)")
            show ?thesis
            proof (cases rk)
              case (Inl e)
              have "?goal (Inr None) x (calls wc) ?m ?g Queued"
                by (simp add: u try_commit_fails[OF cfg cw pg mn cm[unfolded Inl]] dc
                      try_except_def ret_def)
              then show ?thesis by blast
            next
              case (Inr un)
              have "?goal (Inr (Some (cname mainc))) x (calls wc) ?m ?g Committed"
                by (simp add: u try_commit_succeeds[OF cfg cw pg mn cm[unfolded Inr]] dc
                      try_except_def ret_def)
              then show ?thesis by blast
            qed
          qed
        qed
      qed
    qed
  qed
qed


subsection \<open>Lifecycle management\<close>

text \<open>
  C3. With the row present: when the runtime reports not-found, on the lookup or on
  the removal, and the action is \<open>remove\<close>, and the database accepts the status update
  and the commit, \<open>manage_container\<close> returns \<open>True\<close>, the status was set to \<open>removed\<close>,
  the row deleted and the deletion committed. Whenever a \<open>remove\<close> returns \<open>True\<close> and
  the container ids of the table were distinct, no row with that id remains.
\<close>

theorem manage_container_remove_reconciles:
  assumes "from_env R w = (Inr client, w1)"
      and "query_first R cid w1 = (Inr (Some c), w2)"
  shows "(\<forall>e w3 w4 w5.
            (containers_get R cid w2 = (Inl e, w3)
             \<or> (\<exists>dc wg. containers_get R cid w2 = (Inr dc, wg)
                         \<and> container_remove R dc True wg = (Inl e, w3)))
            \<and> is_NotFound e
            \<and> update_status R c ''removed'' w3 = (Inr (), w4)
            \<and> session_commit R (snd (session_delete c w4)) = (Inr (), w5)
          \<longrightarrow> manage_container R cid ''remove'' w = (Inr True, w5)
            \<and> pending (db w5) = []
            \<and> rows (db w5) = remove_first (\<lambda>r. container_id r = cid)
                 (update_first (\<lambda>r. container_id r = cid) (\<lambda>r. r\<lparr>status := ''removed''\<rparr>)
                    (visible (db w))))
       \<and> (\<forall>w'. manage_container R cid ''remove'' w = (Inr True, w')
                 \<and> distinct (map container_id (visible (db w)))
          \<longrightarrow> pending (db w') = [] \<and> cid \<notin> container_id ` set (rows (db w')))"
proof -
  have cid: "container_id c = cid" using query_first_Some[OF assms(2)] by simp
  have d2: "db w2 = db w"
    using runtime_onlyD[OF runtime_only_calls(1) assms(1)] query_first_db[OF assms(2)] by simp
  have m: "manage_container R cid ''remove'' w =
     try_except (manage_container_found R cid ''remove'' c)
       (manage_container_except R ''remove'' (Some (Some c))) w2"
    using assms by (rule manage_container_after_query)
  have part1: "manage_container R cid ''remove'' w = (Inr True, w5)
            \<and> pending (db w5) = []
            \<and> rows (db w5) = remove_first (\<lambda>r. container_id r = cid)
                 (update_first (\<lambda>r. container_id r = cid) (\<lambda>r. r\<lparr>status := ''removed''\<rparr>)
                    (visible (db w)))"
    if h: "(containers_get R cid w2 = (Inl e, w3)
             \<or> (\<exists>dc wg. containers_get R cid w2 = (Inr dc, wg)
                         \<and> container_remove R dc True wg = (Inl e, w3)))
            \<and> is_NotFound e
            \<and> update_status R c ''removed'' w3 = (Inr (), w4)
            \<and> session_commit R (snd (session_delete c w4)) = (Inr (), w5)" for e w3 w4 w5
  proof -
    from h have nf: "is_NotFound e" and us: "update_status R c ''removed'' w3 = (Inr (), w4)"
      and sc: "session_commit R (snd (session_delete c w4)) = (Inr (), w5)" by simp_all
    from h have f: "manage_container_found R cid ''remove'' c w2 = (Inl e, w3)"
      using manage_container_found_get_fails
        manage_container_found_call_fails[where action = "''remove''"]
      by (auto simp: lifecycle_call_def)
    have d3: "db w3 = db w2"
      using h runtime_onlyD[OF runtime_only_calls(11)] runtime_onlyD[OF runtime_only_calls(5)]
      by metis
    have "manage_container_except R ''remove'' (Some (Some c)) e w3 = (Inr True, w5)"
      using nf us sc
      by (simp add: manage_container_except_def bnd_def ret_def session_delete_def)
    with m f have "manage_container R cid ''remove'' w = (Inr True, w5)"
      by (simp add: try_except_def)
    moreover note finish_remove_db[OF us sc]
    ultimately show ?thesis using cid d3 d2 by simp
  qed
  have part2: "pending (db w') = [] \<and> cid \<notin> container_id ` set (rows (db w'))"
    if h: "manage_container R cid ''remove'' w = (Inr True, w')
                 \<and> distinct (map container_id (visible (db w)))" for w'
  proof -
    from h d2 have u2: "uniq w2" by (simp add: uniq_def)
    from h m have t: "try_except (manage_container_found R cid ''remove'' c)
       (manage_container_except R ''remove'' (Some (Some c))) w2 = (Inr True, w')" by simp
    from try_except_cases[OF t]
    consider "manage_container_found R cid ''remove'' c w2 = (Inr True, w')"
      | e w3 where "manage_container_found R cid ''remove'' c w2 = (Inl e, w3)"
          "manage_container_except R ''remove'' (Some (Some c)) e w3 = (Inr True, w')"
      by blast
    then show ?thesis
    proof cases
      case 1
      from remove_found_Inr[OF 1] obtain dc wg wr w4 where
            g: "containers_get R cid w2 = (Inr dc, wg)"
        and r: "container_remove R dc True wg = (Inr (), wr)"
        and us: "update_status R c ''removed'' wr = (Inr (), w4)"
        and sc: "session_commit R (snd (session_delete c w4)) = (Inr (), w')" by blast
      have "uniq wr"
        using keeps_uniqD[OF keeps_uniq_calls(5) r] keeps_uniqD[OF keeps_uniq_calls(1) g] u2 by blast
      from finish_remove_db(1)[OF us sc] finish_remove_absent[OF us sc this] cid
      show ?thesis by simp
    next
      case 2
      from remove_handler_Inr[OF 2(2)] obtain w4 where
            us: "update_status R c ''removed'' w3 = (Inr (), w4)"
        and sc: "session_commit R (snd (session_delete c w4)) = (Inr (), w')" by blast
      have "uniq w3" using keeps_uniqD[OF keeps_uniq_found 2(1) u2] .
      from finish_remove_db(1)[OF us sc] finish_remove_absent[OF us sc this] cid
      show ?thesis by simp
    qed
  qed
  from part1 part2 show ?thesis by blast
qed


theorem manage_container_remove_reconciles_witness:
  "manage_container gone_env ''cyber_42_cyber'' ''remove'' world_42 = (Inr True, removed_42)
   \<and> pending (db removed_42) = []
   \<and> rows (db removed_42) = []
   \<and> ''cyber_42_cyber'' \<notin> container_id ` set (rows (db removed_42))"
proof -
  let ?w1 = "world_42\<lparr>calls := [FromEnv]\<rparr>"
  let ?w3 = "world_42\<lparr>calls := [FromEnv, ContainersGet ''cyber_42_cyber'']\<rparr>"
  let ?w4 = "?w3\<lparr>db := \<lparr>rows = [record_42\<lparr>status := ''removed''\<rparr>], pending = [],
                 commit_log = [[SetStatus ''cyber_42_cyber'' ''removed'']]\<rparr>\<rparr>"
  have fe: "from_env gone_env world_42 = (Inr (), ?w1)"
    by (simp add: prog_defs input_defs)
  have q: "query_first gone_env ''cyber_42_cyber'' ?w1 = (Inr (Some record_42), ?w1)"
    by (simp add: prog_defs input_defs)
  have g: "containers_get gone_env ''cyber_42_cyber'' ?w1 = (Inl (NotFound ''No such container''), ?w3)"
    by (simp add: prog_defs input_defs)
  have u: "update_status gone_env record_42 ''removed'' ?w3 = (Inr (), ?w4)"
    by (simp add: prog_defs input_defs)
  have c: "session_commit gone_env (snd (session_delete record_42 ?w4)) = (Inr (), removed_42)"
    unfolding removed_42_def by (simp add: manage_defs prog_defs input_defs)
  have v: "visible (db world_42) = [record_42]" by (simp add: visible_def input_defs)
  have i: "container_id record_42 = ''cyber_42_cyber''" by (simp add: record_42_def)
  from manage_container_remove_reconciles[OF fe q] g u c
  have 1: "manage_container gone_env ''cyber_42_cyber'' ''remove'' world_42 = (Inr True, removed_42)
     \<and> pending (db removed_42) = []
     \<and> rows (db removed_42) = remove_first (\<lambda>r. container_id r = ''cyber_42_cyber'')
                 (update_first (\<lambda>r. container_id r = ''cyber_42_cyber'')
                    (\<lambda>r. r\<lparr>status := ''removed''\<rparr>) (visible (db world_42)))"
    by (metis is_NotFound.simps(1))
  then have 2: "rows (db removed_42) = []" by (simp add: v i)
  have "distinct (map container_id (visible (db world_42)))" by (simp add: v)
  with manage_container_remove_reconciles[OF fe q] 1
  have "''cyber_42_cyber'' \<notin> container_id ` set (rows (db removed_42))" by blast
  with 1 2 show ?thesis by blast
qed

text \<open>
  C4. \<open>manage_container\<close> does not return \<open>False\<close> in every failure case: the client is
  acquired before the \<open>try\<close> block, so when the daemon cannot be reached the exception
  of \<open>docker.from_env()\<close> leaves the function, here for a container without a
  persisted row and the action \<open>stop\<close>. The session is untouched.
\<close>

theorem manage_container_client_failure:
  "manage_container down_env ''cyber_42_cyber'' ''stop'' empty_world
     = (Inl (DockerException ''Error while fetching server API version''),
        empty_world\<lparr>calls := [FromEnv]\<rparr>)"
  by (simp add: manage_container_def prog_defs input_defs)

text \<open>
  Once the client handle is acquired, \<open>manage_container\<close> returns \<open>False\<close> and leaves the
  session exactly as it was (table, queued changes and commits) when the query finds
  no row, and when the row is found and the runtime raises, on the lookup or on the
  lifecycle operation of the action, either not-found for an action other than
  \<open>remove\<close> or any exception that is not not-found.
\<close>

theorem manage_container_failure:
  assumes "from_env R w = (Inr client, w1)"
  shows "(\<forall>w2. query_first R cid w1 = (Inr None, w2)
            \<longrightarrow> manage_container R cid action w = (Inr False, w2) \<and> db w2 = db w)
       \<and> (\<forall>c w2 e w3.
            query_first R cid w1 = (Inr (Some c), w2)
            \<and> (containers_get R cid w2 = (Inl e, w3)
               \<or> (\<exists>dc wg. containers_get R cid w2 = (Inr dc, wg)
                           \<and> lifecycle_call R action dc wg = (Inl e, w3)))
            \<and> \<not> (is_NotFound e \<and> action = ''remove'')
            \<longrightarrow> manage_container R cid action w = (Inr False, w3) \<and> db w3 = db w)"
proof (intro conjI allI impI)
  have d1: "db w1 = db w" using runtime_onlyD[OF runtime_only_calls(1) assms] by simp
  {
    fix w2
    assume q: "query_first R cid w1 = (Inr None, w2)"
    then have "manage_container R cid action w = (Inr False, w2)"
      using assms by (simp add: manage_container_unfold try_bind_def try_except_def ret_def)
    moreover have "db w2 = db w" using query_first_db[OF q] d1 by simp
    ultimately show "manage_container R cid action w = (Inr False, w2)" "db w2 = db w" by simp_all
  }
  {
    fix c w2 e w3
    assume h: "query_first R cid w1 = (Inr (Some c), w2)
            \<and> (containers_get R cid w2 = (Inl e, w3)
               \<or> (\<exists>dc wg. containers_get R cid w2 = (Inr dc, wg)
                           \<and> lifecycle_call R action dc wg = (Inl e, w3)))
            \<and> \<not> (is_NotFound e \<and> action = ''remove'')"
    then have q: "query_first R cid w1 = (Inr (Some c), w2)"
      and ne: "\<not> (is_NotFound e \<and> action = ''remove'')" by simp_all
    from h have f: "manage_container_found R cid action c w2 = (Inl e, w3)"
      using manage_container_found_get_fails manage_container_found_call_fails by blast
    have d3: "db w3 = db w2"
    proof -
      from h consider "containers_get R cid w2 = (Inl e, w3)"
        | dc wg where "containers_get R cid w2 = (Inr dc, wg)" "lifecycle_call R action dc wg = (Inl e, w3)"
        by blast
      then show ?thesis
      proof cases
        case 1
        then show ?thesis using runtime_onlyD[OF runtime_only_calls(11)] by blast
      next
        case 2
        then show ?thesis
          using runtime_onlyD[OF runtime_only_calls(11) 2(1)] runtime_onlyD[OF runtime_only_lifecycle_call 2(2)]
          by simp
      qed
    qed
    have "manage_container R cid action w = (Inr False, w3)"
      using manage_container_after_query[OF assms q] f manage_container_except_False[OF ne]
      by (simp add: try_except_def)
    moreover have "db w3 = db w" using d3 query_first_db[OF q] d1 by simp
    ultimately show "manage_container R cid action w = (Inr False, w3)" "db w3 = db w" by simp_all
  }
qed

theorem manage_container_failure_witness:
  "manage_container fresh_env ''cyber_42_cyber'' ''stop'' empty_world
     = (Inr False, empty_world\<lparr>calls := [FromEnv]\<rparr>)
   \<and> manage_container gone_env ''cyber_42_cyber'' ''stop'' world_42
     = (Inr False, world_42\<lparr>calls := [FromEnv, ContainersGet ''cyber_42_cyber'']\<rparr>)
   \<and> manage_container start_fails_env ''cyber_42_cyber'' ''start'' world_42
     = (Inr False, world_42\<lparr>calls := [FromEnv, ContainersGet ''cyber_42_cyber'',
                                         ContainerStart ''cyber_42_cyber'']\<rparr>)"
proof -
  have fe0: "from_env fresh_env empty_world = (Inr (), empty_world\<lparr>calls := [FromEnv]\<rparr>)"
    by (simp add: prog_defs input_defs)
  have q0: "query_first fresh_env ''cyber_42_cyber'' (empty_world\<lparr>calls := [FromEnv]\<rparr>)
              = (Inr None, empty_world\<lparr>calls := [FromEnv]\<rparr>)"
    by (simp add: prog_defs input_defs)
  from manage_container_failure[OF fe0, of "''cyber_42_cyber''" "''stop''"] q0
  have 1: "manage_container fresh_env ''cyber_42_cyber'' ''stop'' empty_world
     = (Inr False, empty_world\<lparr>calls := [FromEnv]\<rparr>)" by blast
  let ?w1 = "world_42\<lparr>calls := [FromEnv]\<rparr>"
  let ?w3 = "world_42\<lparr>calls := [FromEnv, ContainersGet ''cyber_42_cyber'']\<rparr>"
  let ?w4 = "world_42\<lparr>calls := [FromEnv, ContainersGet ''cyber_42_cyber'',
                                  ContainerStart ''cyber_42_cyber'']\<rparr>"
  have fe1: "from_env gone_env world_42 = (Inr (), ?w1)"
    by (simp add: prog_defs input_defs)
  have q1: "query_first gone_env ''cyber_42_cyber'' ?w1 = (Inr (Some record_42), ?w1)"
    by (simp add: prog_defs input_defs)
  have g1: "containers_get gone_env ''cyber_42_cyber'' ?w1 = (Inl (NotFound ''No such container''), ?w3)"
    by (simp add: prog_defs input_defs)
  have n1: "\<not> (is_NotFound (NotFound ''No such container'') \<and> ''stop'' = ''remove'')" by simp
  from manage_container_failure[OF fe1, of "''cyber_42_cyber''" "''stop''"] q1 g1 n1
  have 2: "manage_container gone_env ''cyber_42_cyber'' ''stop'' world_42 = (Inr False, ?w3)"
    by blast
  have fe2: "from_env start_fails_env world_42 = (Inr (), ?w1)"
    by (simp add: prog_defs input_defs)
  have q2: "query_first start_fails_env ''cyber_42_cyber'' ?w1 = (Inr (Some record_42), ?w1)"
    by (simp add: prog_defs input_defs)
  have g2: "containers_get start_fails_env ''cyber_42_cyber'' ?w1
              = (Inr \<lparr>cname = ''cyber_42_cyber'', cstatus = ''running''\<rparr>, ?w3)"
    by (simp add: prog_defs input_defs)
  have l2: "lifecycle_call start_fails_env ''start'' \<lparr>cname = ''cyber_42_cyber'', cstatus = ''running''\<rparr> ?w3
              = (Inl (APIError ''cannot start''), ?w4)"
    by (simp add: manage_defs prog_defs input_defs)
  have n2: "\<not> (is_NotFound (APIError ''cannot start'') \<and> ''start'' = ''remove'')" by simp
  from manage_container_failure[OF fe2, of "''cyber_42_cyber''" "''start''"] q2 g2 l2 n2
  have 3: "manage_container start_fails_env ''cyber_42_cyber'' ''start'' world_42 = (Inr False, ?w4)"
    by blast
  from 1 2 3 show ?thesis by blast
qed

text \<open>
  C10. With the row present and the lookup in the runtime successful, an action other
  than \<open>start\<close>, \<open>stop\<close>, \<open>remove\<close> and \<open>restart\<close> makes \<open>manage_container\<close> return \<open>True\<close>;
  the only calls made are the acquisition of the client and the lookup, and the
  session, so the status of the row, is unchanged.
\<close>

theorem manage_container_unknown_action:
  assumes "from_env R w = (Inr client, w1)"
      and "query_first R cid w1 = (Inr (Some c), w2)"
      and "containers_get R cid w2 = (Inr dc, w3)"
      and "action \<notin> {''start'', ''stop'', ''remove'', ''restart''}"
  shows "manage_container R cid action w = (Inr True, w3)
       \<and> calls w3 = calls w @ [FromEnv, ContainersGet cid]
       \<and> db w3 = db w"
proof -
  from assms(4) have a: "action \<noteq> ''start''" "action \<noteq> ''stop''" "action \<noteq> ''remove''" "action \<noteq> ''restart''"
    by auto
  have "manage_container R cid action w = (Inr True, w3)"
    using manage_container_after_query[OF assms(1,2)] manage_container_found_other_action[OF assms(3) a]
    by (simp add: try_except_def)
  moreover have "calls w1 = calls w @ [FromEnv]" "db w1 = db w"
    using assms(1) docker_call_result unfolding from_env_def by blast+
  moreover have "calls w2 = calls w1" "db w2 = db w1" using query_first_db[OF assms(2)] by simp_all
  moreover have "calls w3 = calls w2 @ [ContainersGet cid]" "db w3 = db w2"
    using assms(3) docker_call_result unfolding containers_get_def by blast+
  ultimately show ?thesis by simp
qed

theorem manage_container_unknown_action_witness:
  "manage_container fresh_env ''cyber_42_cyber'' ''pause'' world_42
     = (Inr True, world_42\<lparr>calls := [FromEnv, ContainersGet ''cyber_42_cyber'']\<rparr>)
   \<and> db (world_42\<lparr>calls := [FromEnv, ContainersGet ''cyber_42_cyber'']\<rparr>) = db world_42"
proof -
  let ?w1 = "world_42\<lparr>calls := [FromEnv]\<rparr>"
  let ?w3 = "world_42\<lparr>calls := [FromEnv, ContainersGet ''cyber_42_cyber'']\<rparr>"
  have fe: "from_env fresh_env world_42 = (Inr (), ?w1)"
    by (simp add: prog_defs input_defs)
  have q: "query_first fresh_env ''cyber_42_cyber'' ?w1 = (Inr (Some record_42), ?w1)"
    by (simp add: prog_defs input_defs)
  have g: "containers_get fresh_env ''cyber_42_cyber'' ?w1
              = (Inr \<lparr>cname = ''cyber_42_cyber'', cstatus = ''running''\<rparr>, ?w3)"
    by (simp add: prog_defs input_defs)
  have a: "''pause'' \<notin> {''start'', ''stop'', ''remove'', ''restart''}" by simp
  from manage_container_unknown_action[OF fe q g a] show ?thesis by simp
qed

subsection \<open>Port allocation and tenant configuration\<close>







text \<open>
  C7 (as stated): two different tenant identifiers give different ports. It fails for
  the identifiers \<open>'42'\<close> and \<open>'042'\<close>, which \<open>int()\<close> both reads as 42; the integer 42 and
  the string \<open>'42'\<close> even give the same three components.
\<close>

theorem generate_unique_config_collision:
  "StrId ''42'' \<noteq> StrId ''042''
   \<and> generate_unique_config (StrId ''42'') = Inr (5042, ''db_42'', ''cyber_42'')
   \<and> generate_unique_config (StrId ''042'') = Inr (5042, ''db_042'', ''cyber_042'')
   \<and> IntId 42 \<noteq> StrId ''42''
   \<and> generate_unique_config (IntId 42) = Inr (5042, ''db_42'', ''cyber_42'')"
  by (simp add: config_defs)

text \<open>
  C7 (amended). Two ports are equal exactly when \<open>int()\<close> gives the same integer for the
  two identifiers, and two database names, or two project names, are equal exactly
  when the two identifiers have the same text. For two different integers all three
  components differ.
\<close>

theorem generate_unique_config_distinct:
  assumes "generate_unique_config u1 = Inr (p1, d1, n1)"
      and "generate_unique_config u2 = Inr (p2, d2, n2)"
  shows "(p1 = p2 \<longleftrightarrow> py_int u1 = py_int u2)
       \<and> (d1 = d2 \<longleftrightarrow> py_str u1 = py_str u2)
       \<and> (n1 = n2 \<longleftrightarrow> py_str u1 = py_str u2)
       \<and> (\<forall>t1 t2. u1 = IntId t1 \<and> u2 = IntId t2 \<and> t1 \<noteq> t2 \<longrightarrow> p1 \<noteq> p2 \<and> d1 \<noteq> d2 \<and> n1 \<noteq> n2)"
proof -
  from generate_unique_config_Inr[OF assms(1)] obtain x1 where
    a: "py_int u1 = Inr (p1 - 5000)" "py_str u1 = Inr x1" "d1 = ''db_'' @ x1" "n1 = ''cyber_'' @ x1"
    by blast
  from generate_unique_config_Inr[OF assms(2)] obtain x2 where
    b: "py_int u2 = Inr (p2 - 5000)" "py_str u2 = Inr x2" "d2 = ''db_'' @ x2" "n2 = ''cyber_'' @ x2"
    by blast
  have 1: "p1 = p2 \<longleftrightarrow> py_int u1 = py_int u2" using a(1) b(1) by auto
  have 2: "d1 = d2 \<longleftrightarrow> py_str u1 = py_str u2" using a(2,3) b(2,3) by simp
  have 3: "n1 = n2 \<longleftrightarrow> py_str u1 = py_str u2" using a(2,4) b(2,4) by simp
  have 4: "p1 \<noteq> p2 \<and> d1 \<noteq> d2 \<and> n1 \<noteq> n2" if "u1 = IntId t1" "u2 = IntId t2" "t1 \<noteq> t2" for t1 t2
  proof -
    from that have "py_int u1 \<noteq> py_int u2" by simp
    moreover have "x1 = str_of_int t1" "x2 = str_of_int t2"
      using a(2) b(2) that by (auto split: if_splits)
    then have "py_str u1 \<noteq> py_str u2" using a(2) b(2) that(3) str_of_int_inj by auto
    ultimately show ?thesis using 1 2 3 by simp
  qed
  from 1 2 3 4 show ?thesis by blast
qed

theorem generate_unique_config_distinct_witness:
  "generate_unique_config (IntId 1) = Inr (5001, ''db_1'', ''cyber_1'')
   \<and> generate_unique_config (IntId 2) = Inr (5002, ''db_2'', ''cyber_2'')
   \<and> (5001 :: int) \<noteq> 5002 \<and> ''db_1'' \<noteq> ''db_2'' \<and> ''cyber_1'' \<noteq> ''cyber_2''"
  using generate_unique_config_distinct[OF config_1 config_2] config_1 config_2 by simp

subsection \<open>Telemetry\<close>



end
